theory Spec2Isabelle
  imports Main
begin

section \<open>Values shared by targets.ts and pull.ts\<close>

text \<open>
  A value that is thrown, or with which a promise rejects. The string is what the
  template literal \<open>${e}\<close> renders for it (a thrown value is taken to have a
  string conversion). An \<open>async\<close> function that rejects is a result \<open>Inl e\<close>;
  one that resolves with \<open>v\<close> is \<open>Inr v\<close>.
\<close>

datatype error = Thrown string

fun render :: "error \<Rightarrow> string" where
  "render (Thrown msg) = msg"

text \<open>\<open>new Error(msg)\<close>, which a template literal renders as \<open>Error: msg\<close>.\<close>

definition newError :: "string \<Rightarrow> error" where
  "newError msg = Thrown (''Error: '' @ msg)"

text \<open>
  A setting that holds zero, one or many values (\<open>T | T[]\<close>, optional).
\<close>

datatype 'a one_or_many = Missing | Single 'a | Array "'a list"

subsection \<open>Helpers of helpers.ts\<close>

text \<open>
  The module \<open>./helpers\<close> is not part of the sources at hand. The string helpers are
  written down here from the specification; the others are parameters of the model
  (record \<open>env\<close> below).
\<close>

text \<open>
  A character of a string is a code unit below 256 (the Latin-1 range); strings with
  code units beyond it are outside the model. The white space and the line
  terminators of ECMAScript in that range are the tabulation, line feed, vertical
  tabulation, form feed, carriage return, space and no-break space (U+00A0).
\<close>

definition isWhiteSpace :: "char \<Rightarrow> bool" where
  "isWhiteSpace c =
     (c \<in> set [CHR '' '', CHR 0x09, CHR 0x0A, CHR 0x0B, CHR 0x0C, CHR 0x0D, CHR 0xA0])"

text \<open>\<open>String.prototype.trim\<close>.\<close>

definition trim :: "string \<Rightarrow> string" where
  "trim s = rev (dropWhile isWhiteSpace (rev (dropWhile isWhiteSpace s)))"

text \<open>
  \<open>String.prototype.toLowerCase\<close>: the upper case letters below 256 are A to Z
  (65 to 90) and the letters from U+00C0 to U+00DE but the multiplication sign
  U+00D7; the lower case letter of each is 32 further.
\<close>

definition toLowerChar :: "char \<Rightarrow> char" where
  "toLowerChar c =
     (let n = (of_char c :: nat)
      in if (65 \<le> n \<and> n \<le> 90) \<or> (192 \<le> n \<and> n \<le> 222 \<and> n \<noteq> 215)
         then char_of (n + 32) else c)"

definition toLowerCase :: "string \<Rightarrow> string" where
  "toLowerCase s = map toLowerChar s"

text \<open>
  Modelled from the spec: \<open>deploy_helpers.toStringSafe\<close> (helpers.ts is missing). An
  absent value (\<open>null\<close>, \<open>undefined\<close>) is the empty string, a string is itself.
\<close>

definition toStringSafe :: "string option \<Rightarrow> string" where
  "toStringSafe v = (case v of None \<Rightarrow> '''' | Some s \<Rightarrow> s)"

text \<open>
  Modelled from the spec: \<open>deploy_helpers.normalizeString\<close> (helpers.ts is missing).
  The glossary: a normalized type is the lower-cased, trimmed type tag.
\<close>

definition normalizeString :: "string option \<Rightarrow> string" where
  "normalizeString v = trim (toLowerCase (toStringSafe v))"

text \<open>
  Modelled from the spec: \<open>deploy_helpers.asArray\<close> (helpers.ts is missing). Zero, one
  or many values become the list of the values, in declaration order.
\<close>

definition asArray :: "'a one_or_many \<Rightarrow> 'a list" where
  "asArray v = (case v of Missing \<Rightarrow> [] | Single x \<Rightarrow> [x] | Array xs \<Rightarrow> xs)"

text \<open>
  The result of an operation executor, \<open>void | null | boolean\<close>.
\<close>

datatype execution_result = RVoid | RNull | RBool bool

text \<open>
  Modelled from the spec: \<open>deploy_helpers.toBooleanSafe\<close> (helpers.ts is missing).
  \<open>void\<close> and \<open>null\<close> take the default value, a boolean is itself.
\<close>

definition toBooleanSafe :: "execution_result \<Rightarrow> bool \<Rightarrow> bool" where
  "toBooleanSafe v defaultValue = (case v of RBool b \<Rightarrow> b | _ \<Rightarrow> defaultValue)"

section \<open>targets.ts: the data model\<close>

text \<open>
  \<open>TargetOperation\<close>: the type, the inclusion condition of a \<open>ConditionalItem\<close>, and
  the payload \<open>target\<close> of an \<open>OpenTargetOperation\<close>.
\<close>

record target_operation =
  op_type :: "string option"
  op_if :: "string option"
  op_target :: "string option"

text \<open>\<open>TargetOperationValue = TargetOperation | string\<close>.\<close>

datatype target_operation_value = Operation target_operation | Str string

text \<open>
  \<open>Target\<close>. \<open>t_index\<close> is \<open>__index\<close>; \<open>t_workspace\<close> is the back reference
  \<open>__workspace\<close>, a handle of the owning workspace.
\<close>

record target =
  t_name :: "string option"
  t_type :: "string option"
  t_description :: "string option"
  beforeDeploy :: "target_operation_value one_or_many"
  deployed :: "target_operation_value one_or_many"
  t_index :: nat
  t_workspace :: nat

datatype target_operation_event = BeforeDeploy | AfterDeployed

text \<open>\<open>TargetOperationExecutionContext\<close>, linked to the context that ran before.\<close>

datatype execution_context =
  Context
    (ctx_args: "string list")
    (ctx_event: target_operation_event)
    (ctx_operation: target_operation)
    (ctx_previousOperation: "execution_context option")
    (ctx_target: target)
    (ctx_type: string)

section \<open>The world and the collaborators\<close>

text \<open>
  The output channel of the extension records every call of \<open>append\<close> and
  \<open>appendLine\<close>, in order.
\<close>

datatype output_call = Append string | AppendLine string

text \<open>
  The world outside the two modules: the output channel, the warnings shown so far
  (\<open>deploy_helpers.showWarningMessage\<close>) and the rest (file system, workspace
  flags, servers), which only the collaborators read and change.
\<close>

record 'x world =
  outputChannel :: "output_call list"
  shownWarnings :: "string list"
  ext :: 'x

text \<open>
  What the two modules do with their collaborators, kept beside the world as a
  history no collaborator can change:
  \<^item> \<open>Executed\<close>: an executor is invoked with the context;
  \<^item> \<open>Shifted\<close>: \<open>PLUGINS.shift()\<close> takes the plugin with this \<open>__index\<close> for
    the next pass of the loop of pull.ts;
  \<^item> \<open>DownloadFiles\<close>: the function \<open>downloadFiles\<close> of the plugin with this
    \<open>__index\<close> is invoked, with a context of the descriptors of these files;
  \<^item> \<open>QuickPick\<close>: \<open>vscode.window.showQuickPick\<close> is invoked with items of these
    labels and this place holder;
  \<^item> \<open>TargetAction\<close>: the action of the target with this \<open>__index\<close> is invoked.
\<close>

datatype call =
    Executed execution_context
  | Shifted nat
  | DownloadFiles nat "string list"
  | QuickPick "string list" string
  | TargetAction nat

record 'x state =
  calls :: "call list"
  world :: "'x world"

type_synonym 'x executor =
  "execution_context \<Rightarrow> 'x world \<Rightarrow> (error + execution_result) \<times> 'x world"

text \<open>\<open>ActionQuickPick\<close> of contracts.ts: an item of a quick pick, with its action.\<close>

record 'x action_quick_pick =
  action :: "'x state \<Rightarrow> (error + unit) \<times> 'x state"
  description :: string
  detail :: string
  label :: string

text \<open>
  The collaborators whose code is not at hand, taken as parameters:
  \<^item> \<open>isEmptyString\<close> of helpers.ts;
  \<^item> \<open>evalCondition\<close>: what \<open>filterConditionalItems\<close> of helpers.ts computes for the
    condition of one item (it may throw);
  \<^item> \<open>isInFinalizeState\<close> of a workspace, read from the world;
  \<^item> \<open>open_execute\<close>: \<open>execute\<close> of targets/operations/open.ts;
  \<^item> \<open>translate\<close>: the method \<open>t\<close> of a workspace, with one numeric argument;
  \<^item> \<open>fsPath\<close>: \<open>folder.uri.fsPath\<close> of a workspace;
  \<^item> \<open>showQuickPick\<close> of vscode: the item chosen, or nothing (it may reject);
  \<^item> \<open>writeFile\<close> of helpers.ts, which may reject.
\<close>

record 'x env =
  isEmptyString :: "string \<Rightarrow> bool"
  evalCondition :: "string \<Rightarrow> error + bool"
  isInFinalizeState :: "nat \<Rightarrow> 'x world \<Rightarrow> bool"
  open_execute :: "'x executor"
  translate :: "nat \<Rightarrow> string \<Rightarrow> nat \<Rightarrow> string"
  fsPath :: "nat \<Rightarrow> string"
  showQuickPick ::
    "'x action_quick_pick list \<Rightarrow> string \<Rightarrow> 'x world \<Rightarrow>
     (error + 'x action_quick_pick option) \<times> 'x world"
  writeFile :: "string \<Rightarrow> string \<Rightarrow> 'x world \<Rightarrow> (error + unit) \<times> 'x world"

definition appendLine :: "string \<Rightarrow> 'x world \<Rightarrow> 'x world" where
  "appendLine msg w = w\<lparr>outputChannel := outputChannel w @ [AppendLine msg]\<rparr>"

definition append_out :: "string \<Rightarrow> 'x world \<Rightarrow> 'x world" where
  "append_out msg w = w\<lparr>outputChannel := outputChannel w @ [Append msg]\<rparr>"

definition showWarningMessage :: "string \<Rightarrow> 'x world \<Rightarrow> 'x world" where
  "showWarningMessage msg w = w\<lparr>shownWarnings := shownWarnings w @ [msg]\<rparr>"

definition record_call :: "call \<Rightarrow> 'x state \<Rightarrow> 'x state" where
  "record_call c s = s\<lparr>calls := calls s @ [c]\<rparr>"

section \<open>targets.ts: executeTargetOperations\<close>

text \<open>
  Modelled from the spec: \<open>deploy_helpers.filterConditionalItems\<close> (helpers.ts is
  missing). An item that carries a condition which evaluates to false is dropped; an
  item with no condition, and an absent item, stay. The evaluation of a condition is
  the parameter \<open>evalCondition\<close>; when it throws, so does the filter.
\<close>

fun filterConditionalItems ::
  "'x env \<Rightarrow> target_operation option list \<Rightarrow> error + target_operation option list" where
  "filterConditionalItems D [] = Inr []"
| "filterConditionalItems D (i # items) =
     (case (case i of None \<Rightarrow> Inr True
            | Some item \<Rightarrow> (case op_if item of None \<Rightarrow> Inr True | Some c \<Rightarrow> evalCondition D c)) of
        Inl e \<Rightarrow> Inl e
      | Inr keep \<Rightarrow>
          (case filterConditionalItems D items of
             Inl e \<Rightarrow> Inl e
           | Inr others \<Rightarrow> Inr (if keep then i # others else others)))"

text \<open>\<open>firstOrDefault(null)\<close> of node-enumerable.\<close>

definition firstOrDefault :: "'a option list \<Rightarrow> 'a option" where
  "firstOrDefault xs = (case xs of [] \<Rightarrow> None | x # _ \<Rightarrow> x)"

text \<open>
  Lines 182 to 206 of targets.ts: the operation an entry stands for. A structured
  operation is itself; a string that is not empty is the open operation of type
  \<open>''\<close> on that string; then the conditional filter. \<open>Inr None\<close> is the
  \<open>continue\<close> of line 205.
\<close>

definition operationToExecute ::
  "'x env \<Rightarrow> target_operation_value \<Rightarrow> error + target_operation option" where
  "operationToExecute D OPERATION_VAL =
     (let operationToExecute =
            (case OPERATION_VAL of
               Operation operation \<Rightarrow> Some operation
             | Str APP \<Rightarrow>
                 (if \<not> isEmptyString D APP
                  then Some \<lparr>op_type = Some '''', op_if = None, op_target = Some APP\<rparr>
                  else None))
      in case filterConditionalItems D [operationToExecute] of
           Inl e \<Rightarrow> Inl e
         | Inr items \<Rightarrow> Inr (firstOrDefault items))"

text \<open>Lines 211 to 217: the executor of a normalized type, if it has one.\<close>

definition executorOf :: "'x env \<Rightarrow> string \<Rightarrow> 'x executor option" where
  "executorOf D TYPE' =
     (if TYPE' = '''' \<or> TYPE' = ''open'' then Some (open_execute D) else None)"

text \<open>
  What one pass through the body of the loop ends with: the next pass (with the
  context that is now the previous one), or a return from the function (a value, or
  a rejection).
\<close>

datatype 'x iteration =
    Continue "execution_context option" "'x state"
  | Return "error + bool option" "'x state"

text \<open>
  Lines 223 to 244: the context is built and becomes the previous one, the executor
  is invoked with it, and the chain is aborted when the executor resolves to false.
  An executor that throws or rejects makes the function reject.
\<close>

definition invokeExecutor ::
  "'x executor \<Rightarrow> target_operation_event \<Rightarrow> target_operation \<Rightarrow> execution_context option \<Rightarrow>
   target \<Rightarrow> string \<Rightarrow> 'x state \<Rightarrow> 'x iteration" where
  "invokeExecutor executor operationEvent operation prevOperation tgt TYPE' s =
     (let CTX = Context [] operationEvent operation prevOperation tgt TYPE';
          s1 = record_call (Executed CTX) s
      in case executor CTX (world s1) of
           (Inl e, w) \<Rightarrow> Return (Inl e) (s1\<lparr>world := w\<rparr>)
         | (Inr res, w) \<Rightarrow>
             (let ABORT = \<not> toBooleanSafe res True
              in if ABORT then Return (Inr (Some False)) (s1\<lparr>world := w\<rparr>)
                 else Continue (Some CTX) (s1\<lparr>world := w\<rparr>)))"

text \<open>The body of the loop, lines 178 to 244.\<close>

definition iteration ::
  "'x env \<Rightarrow> target \<Rightarrow> target_operation_event \<Rightarrow> execution_context option \<Rightarrow>
   target_operation_value \<Rightarrow> 'x state \<Rightarrow> 'x iteration" where
  "iteration D tgt operationEvent prevOperation OPERATION_VAL s =
     (if isInFinalizeState D (t_workspace tgt) (world s) then Return (Inr (Some False)) s
      else
        (case operationToExecute D OPERATION_VAL of
           Inl e \<Rightarrow> Return (Inl e) s
         | Inr None \<Rightarrow> Continue prevOperation s
         | Inr (Some operation) \<Rightarrow>
             (let TYPE' = normalizeString (op_type operation)
              in case executorOf D TYPE' of
                   None \<Rightarrow> Continue prevOperation s
                 | Some executor \<Rightarrow>
                     invokeExecutor executor operationEvent operation prevOperation tgt TYPE' s)))"

text \<open>The loop of line 177 over the entries that are left.\<close>

fun forOperations ::
  "'x env \<Rightarrow> target \<Rightarrow> target_operation_event \<Rightarrow> execution_context option \<Rightarrow>
   target_operation_value list \<Rightarrow> 'x state \<Rightarrow> 'x iteration" where
  "forOperations D tgt operationEvent prevOperation [] s = Continue prevOperation s"
| "forOperations D tgt operationEvent prevOperation (OPERATION_VAL # vals) s =
     (case iteration D tgt operationEvent prevOperation OPERATION_VAL s of
        Return r s' \<Rightarrow> Return r s'
      | Continue prev' s' \<Rightarrow> forOperations D tgt operationEvent prev' vals s')"

text \<open>Lines 165 to 174: the operations of the event.\<close>

definition operationsFromTarget ::
  "target \<Rightarrow> target_operation_event \<Rightarrow> target_operation_value one_or_many" where
  "operationsFromTarget tgt operationEvent =
     (case operationEvent of AfterDeployed \<Rightarrow> deployed tgt | BeforeDeploy \<Rightarrow> beforeDeploy tgt)"

text \<open>
  \<open>executeTargetOperations\<close>. The result \<open>Inr None\<close> is \<open>undefined\<close>,
  \<open>Inr (Some b)\<close> the boolean \<open>b\<close>, \<open>Inl e\<close> a rejection.
\<close>

definition executeTargetOperations ::
  "'x env \<Rightarrow> target option \<Rightarrow> target_operation_event \<Rightarrow> 'x state \<Rightarrow>
   (error + bool option) \<times> 'x state" where
  "executeTargetOperations D tgt operationEvent s =
     (case tgt of
        None \<Rightarrow> (Inr None, s)
      | Some t \<Rightarrow>
          (case forOperations D t operationEvent None
                  (asArray (operationsFromTarget t operationEvent)) s of
             Return r s' \<Rightarrow> (r, s')
           | Continue prev s' \<Rightarrow> (Inr (Some True), s')))"

section \<open>targets.ts: getTargetName and showTargetQuickPick\<close>

text \<open>
  What a template literal renders for a value that may be \<open>undefined\<close>, and a text
  between two apostrophes.
\<close>

definition template :: "string option \<Rightarrow> string" where
  "template v = (case v of None \<Rightarrow> ''undefined'' | Some s \<Rightarrow> s)"

definition quoted :: "string \<Rightarrow> string" where
  "quoted s = CHR 0x27 # s @ [CHR 0x27]"

text \<open>\<open>getTargetName\<close>, lines 257 to 270. \<open>None\<close> is \<open>undefined\<close>.\<close>

definition getTargetName :: "'x env \<Rightarrow> target option \<Rightarrow> string option" where
  "getTargetName D tgt =
     (case tgt of
        None \<Rightarrow> None
      | Some t \<Rightarrow>
          (let name = trim (toStringSafe (t_name t))
           in Some (if name = ''''
                    then translate D (t_workspace t) ''targets.defaultName'' (t_index t + 1)
                    else name)))"

text \<open>
  Lines 384 to 399 of targets.ts, and lines 210 to 224 of pull.ts, which are the same
  code: a single item is selected without a prompt, otherwise the chooser is asked;
  the action of the selected item runs, and nothing happens without a selection.
\<close>

definition selectAndInvoke ::
  "'x env \<Rightarrow> 'x action_quick_pick list \<Rightarrow> string \<Rightarrow> 'x state \<Rightarrow> (error + unit) \<times> 'x state" where
  "selectAndInvoke D QUICK_PICK_ITEMS placeHolder s =
     (case (if 1 = length QUICK_PICK_ITEMS then (Inr (Some (QUICK_PICK_ITEMS ! 0)), s)
            else
              (let s1 = record_call (QuickPick (map label QUICK_PICK_ITEMS) placeHolder) s
               in case showQuickPick D QUICK_PICK_ITEMS placeHolder (world s1) of
                    (r, w) \<Rightarrow> (r, s1\<lparr>world := w\<rparr>))) of
        (Inl e, s') \<Rightarrow> (Inl e, s')
      | (Inr None, s') \<Rightarrow> (Inr (), s')
      | (Inr (Some selectedItem), s') \<Rightarrow> action selectedItem s')"

text \<open>
  The quick pick items of \<open>showTargetQuickPick\<close>, lines 360 to 373. The action of
  an item invokes the \<open>action\<close> of the caller, if there is one, on the item's target;
  that invocation is recorded with the target's \<open>__index\<close>.
\<close>

definition targetQuickPickItems ::
  "'x env \<Rightarrow> (target \<Rightarrow> 'x state \<Rightarrow> (error + unit) \<times> 'x state) option \<Rightarrow> target list \<Rightarrow>
   'x action_quick_pick list" where
  "targetQuickPickItems D act targets =
     map (\<lambda>t.
       \<lparr>action = (\<lambda>s'. case act of
                     None \<Rightarrow> (Inr (), s')
                   | Some a \<Rightarrow> a t (record_call (TargetAction (t_index t)) s')),
        description = trim (toStringSafe (t_description t)),
        detail = fsPath D (t_workspace t),
        label = template (getTargetName D (Some t))\<rparr>) targets"

text \<open>
  \<open>showTargetQuickPick\<close>, lines 350 to 400. An entry of \<open>targets\<close> that is not an
  object is \<open>None\<close>. The parameter \<open>ifNoTargets\<close> is never read by the code and
  is left out; the value the promise resolves with is always \<open>undefined\<close>.
\<close>

definition showTargetQuickPick ::
  "'x env \<Rightarrow> target option one_or_many \<Rightarrow> string option \<Rightarrow>
   (target \<Rightarrow> 'x state \<Rightarrow> (error + unit) \<times> 'x state) option \<Rightarrow> 'x state \<Rightarrow>
   (error + unit) \<times> 'x state" where
  "showTargetQuickPick D targets placeHolder act s =
     (let targets' = [t. Some t \<leftarrow> asArray targets];
          QUICK_PICK_ITEMS = targetQuickPickItems D act targets'
      in if length QUICK_PICK_ITEMS < 1
         then (Inr (), s\<lparr>world := showWarningMessage ''No TARGETS found!'' (world s)\<rparr>)
         else selectAndInvoke D QUICK_PICK_ITEMS (toStringSafe placeHolder) s)"

section \<open>pull.ts\<close>

text \<open>
  The types of plugins.ts, workspaces.ts and packages.ts that pull.ts uses, from the
  way it uses them. A callback of a file is an \<open>async\<close> function: it changes the
  world and resolves or rejects.
\<close>

record name_and_path =
  nap_name :: string
  nap_path :: string

datatype downloaded_file = DownloadedFile (df_read: "error + string")

record 'x file_to_download =
  sf_file :: string
  sf_name_and_path :: name_and_path
  onBeforeDownload :: "string option \<Rightarrow> 'x world \<Rightarrow> (error + unit) \<times> 'x world"
  onDownloadCompleted ::
    "error option \<Rightarrow> downloaded_file option \<Rightarrow> 'x world \<Rightarrow> (error + unit) \<times> 'x world"

record 'x download_context =
  dl_files :: "'x file_to_download list"
  dl_target :: target

text \<open>
  A plugin: \<open>__index\<close>, \<open>__type\<close> (normalized when the plugin is loaded),
  \<open>canDownload\<close> and the optional \<open>downloadFiles\<close>.
\<close>

record 'x plugin =
  pi_index :: nat
  pi_type :: string
  canDownload :: bool
  downloadFiles :: "('x download_context \<Rightarrow> 'x world \<Rightarrow> (error + unit) \<times> 'x world) option"

record package =
  p_name :: "string option"
  p_index :: nat
  p_workspace :: nat

datatype workspace_item = TargetItem target | PackageItem package

text \<open>
  The workspace \<open>ME\<close> the functions of pull.ts are bound to: \<open>context.plugins\<close>,
  \<open>toNameAndPath\<close> (\<open>None\<close> is \<open>false\<close>), \<open>canBeHandledByMe\<close>, \<open>getTargets\<close>,
  \<open>findFilesByFilter\<close> (which may reject), the handle of \<open>folder\<close>, and
  \<open>deploy_packages.getPackageName\<close>.
\<close>

record 'x workspace =
  plugins :: "'x plugin list"
  toNameAndPath :: "string \<Rightarrow> name_and_path option"
  canBeHandledByMe :: "workspace_item \<Rightarrow> bool"
  getTargets :: "target list"
  findFilesByFilter :: "package \<Rightarrow> 'x world \<Rightarrow> (error + string list) \<times> 'x world"
  folder :: nat
  getPackageName :: "package \<Rightarrow> string"

subsection \<open>The callbacks of a file, lines 113 to 139\<close>

definition pullingFileMessage :: "string \<Rightarrow> string \<Rightarrow> string" where
  "pullingFileMessage f TARGET_NAME =
     ''Pulling file '' @ quoted f @ '' from '' @ quoted TARGET_NAME @ ''... ''"

definition errorLine :: "error \<Rightarrow> string" where
  "errorLine e = ''[ERROR: '' @ render e @ '']''"

text \<open>\<open>SF.onBeforeDownload\<close>, lines 113 to 116.\<close>

definition sf_onBeforeDownload ::
  "string \<Rightarrow> string \<Rightarrow> string option \<Rightarrow> 'x world \<Rightarrow> (error + unit) \<times> 'x world" where
  "sf_onBeforeDownload f TARGET_NAME destination w =
     (Inr (), append_out (pullingFileMessage f TARGET_NAME) w)"

text \<open>
  The \<open>try\<close> block of \<open>SF.onDownloadCompleted\<close>, lines 120 to 134. \<open>err = None\<close>
  is an \<open>err\<close> that is not truthy, \<open>downloadedFile = None\<close> a \<open>downloadedFile\<close>
  that is not truthy.
\<close>

definition onDownloadCompleted_try ::
  "'x env \<Rightarrow> string \<Rightarrow> error option \<Rightarrow> downloaded_file option \<Rightarrow> 'x world \<Rightarrow>
   (error + unit) \<times> 'x world" where
  "onDownloadCompleted_try D f err downloadedFile w =
     (case err of
        Some e \<Rightarrow> (Inl e, w)
      | None \<Rightarrow>
          (case (case downloadedFile of
                   Some d \<Rightarrow>
                     (case df_read d of
                        Inl e \<Rightarrow> (Inl e, w)
                      | Inr content \<Rightarrow> writeFile D f content w)
                 | None \<Rightarrow> (Inr (), w)) of
             (Inl e, w') \<Rightarrow> (Inl e, w')
           | (Inr u, w') \<Rightarrow> (Inr (), appendLine ''[OK]'' w')))"

text \<open>\<open>SF.onDownloadCompleted\<close>, lines 117 to 139: the \<open>try\<close> block and its \<open>catch\<close>.\<close>

definition sf_onDownloadCompleted ::
  "'x env \<Rightarrow> string \<Rightarrow> error option \<Rightarrow> downloaded_file option \<Rightarrow> 'x world \<Rightarrow>
   (error + unit) \<times> 'x world" where
  "sf_onDownloadCompleted D f err downloadedFile w =
     (case onDownloadCompleted_try D f err downloadedFile w of
        (Inl e, w') \<Rightarrow> (Inr (), appendLine (errorLine e) w')
      | (Inr u, w') \<Rightarrow> (Inr (), w'))"

subsection \<open>The files of the download context, lines 103 to 142\<close>

definition cannotDetectMessage :: "string \<Rightarrow> string" where
  "cannotDetectMessage f = ''Cannot detect path information for file '' @ quoted f @ ''!''"

text \<open>The function mapped over \<open>files\<close>, lines 103 to 141; \<open>None\<close> is \<open>null\<close>.\<close>

definition toDownload ::
  "'x env \<Rightarrow> 'x workspace \<Rightarrow> string \<Rightarrow> string \<Rightarrow> 'x world \<Rightarrow>
   'x file_to_download option \<times> 'x world" where
  "toDownload D ME TARGET_NAME f w =
     (case toNameAndPath ME f of
        None \<Rightarrow> (None, append_out (cannotDetectMessage f) w)
      | Some NAME_AND_PATH \<Rightarrow>
          (Some \<lparr>sf_file = f, sf_name_and_path = NAME_AND_PATH,
                 onBeforeDownload = sf_onBeforeDownload f TARGET_NAME,
                 onDownloadCompleted = sf_onDownloadCompleted D f\<rparr>, w))"

text \<open>\<open>files.map\<close>, from the first file to the last.\<close>

fun mapFiles ::
  "'x env \<Rightarrow> 'x workspace \<Rightarrow> string \<Rightarrow> string list \<Rightarrow> 'x world \<Rightarrow>
   'x file_to_download option list \<times> 'x world" where
  "mapFiles D ME TARGET_NAME [] w = ([], w)"
| "mapFiles D ME TARGET_NAME (f # fs) w =
     (case toDownload D ME TARGET_NAME f w of
        (sf, w1) \<Rightarrow>
          (case mapFiles D ME TARGET_NAME fs w1 of
             (sfs, w2) \<Rightarrow> (sf # sfs, w2)))"

text \<open>\<open>.filter(f => null !== f)\<close>, line 142.\<close>

definition filterNotNull :: "'a option list \<Rightarrow> 'a list" where
  "filterNotNull xs = [x. Some x \<leftarrow> xs]"

subsection \<open>The loop over the plugins, lines 91 to 159\<close>

definition startMessage :: "string \<Rightarrow> string" where
  "startMessage TARGET_NAME = ''Start pulling files from '' @ quoted TARGET_NAME @ ''...''"

definition finishedMessage :: "string \<Rightarrow> string" where
  "finishedMessage TARGET_NAME =
     ''Pulling files from '' @ quoted TARGET_NAME @ '' has been finished.''"

definition failedMessage :: "string \<Rightarrow> error \<Rightarrow> string" where
  "failedMessage TARGET_NAME e =
     ''[ERROR] Pulling from '' @ quoted TARGET_NAME @ '' failed: '' @ render e"

definition notAFunction :: error where
  "notAFunction = Thrown ''TypeError: PI.downloadFiles is not a function''"

text \<open>
  The \<open>try\<close> block of the loop, lines 95 to 153. On a plugin that has no
  \<open>downloadFiles\<close>, line 147 throws a \<open>TypeError\<close> and invokes nothing; on the
  others the function is invoked with \<open>CTX\<close>, which the history records.
\<close>

definition pullFromPlugin_try ::
  "'x env \<Rightarrow> 'x workspace \<Rightarrow> string list \<Rightarrow> target \<Rightarrow> string \<Rightarrow> 'x plugin \<Rightarrow> 'x state \<Rightarrow>
   (error + unit) \<times> 'x state" where
  "pullFromPlugin_try D ME files tgt TARGET_NAME PI s =
     (let w1 = appendLine '''' (world s);
          w2 = (if length files > 1 then appendLine (startMessage TARGET_NAME) w1 else w1)
      in case mapFiles D ME TARGET_NAME files w2 of
           (mapped, w3) \<Rightarrow>
             (let CTX = \<lparr>dl_files = filterNotNull mapped, dl_target = tgt\<rparr>
              in case downloadFiles PI of
                   None \<Rightarrow> (Inl notAFunction, s\<lparr>world := w3\<rparr>)
                 | Some download \<Rightarrow>
                     (let s3 = record_call
                                 (DownloadFiles (pi_index PI) (map sf_file (dl_files CTX)))
                                 (s\<lparr>world := w3\<rparr>)
                      in case download CTX (world s3) of
                           (Inl e, w4) \<Rightarrow> (Inl e, s3\<lparr>world := w4\<rparr>)
                         | (Inr u, w4) \<Rightarrow>
                             (Inr (),
                              s3\<lparr>world := (if length files > 1
                                            then appendLine (finishedMessage TARGET_NAME) w4
                                            else w4)\<rparr>))))"

text \<open>The body of the loop, lines 94 to 158: the \<open>try\<close> block and its \<open>catch\<close>.\<close>

definition pullFromPlugin ::
  "'x env \<Rightarrow> 'x workspace \<Rightarrow> string list \<Rightarrow> target \<Rightarrow> string \<Rightarrow> 'x plugin \<Rightarrow> 'x state \<Rightarrow>
   'x state" where
  "pullFromPlugin D ME files tgt TARGET_NAME PI s =
     (case pullFromPlugin_try D ME files tgt TARGET_NAME PI s of
        (Inl e, s') \<Rightarrow> s'\<lparr>world := appendLine (failedMessage TARGET_NAME e) (world s')\<rparr>
      | (Inr u, s') \<Rightarrow> s')"

text \<open>
  \<open>while (PLUGINS.length > 0) { const PI = PLUGINS.shift(); ... }\<close>, lines 91 to
  159; the history records the plugin that is taken.
\<close>

fun whilePlugins ::
  "'x env \<Rightarrow> 'x workspace \<Rightarrow> string list \<Rightarrow> target \<Rightarrow> string \<Rightarrow> 'x plugin list \<Rightarrow> 'x state \<Rightarrow>
   'x state" where
  "whilePlugins D ME files tgt TARGET_NAME [] s = s"
| "whilePlugins D ME files tgt TARGET_NAME (PI # PLUGINS) s =
     whilePlugins D ME files tgt TARGET_NAME PLUGINS
       (pullFromPlugin D ME files tgt TARGET_NAME PI (record_call (Shifted (pi_index PI)) s))"

subsection \<open>pullFilesFrom, pullFileFrom and pullPackage\<close>

text \<open>
  \<open>pullFilesFrom\<close>, lines 58 to 160. A list of files that is absent is the empty
  list. \<open>targetNr\<close> is set at line 71 and never read.
\<close>

definition pullFilesFrom ::
  "'x env \<Rightarrow> 'x workspace \<Rightarrow> string list \<Rightarrow> target option \<Rightarrow> nat option \<Rightarrow> 'x state \<Rightarrow>
   (error + unit) \<times> 'x state" where
  "pullFilesFrom D ME files tgt targetNr s =
     (if length files < 1 then (Inr (), s)
      else
        (case tgt of
           None \<Rightarrow> (Inr (), s)
         | Some t \<Rightarrow>
             (let targetNr' = (case targetNr of None \<Rightarrow> t_index t + 1 | Some n \<Rightarrow> n);
                  TARGET_NAME = template (getTargetName D (Some t));
                  TARGET_TYPE = normalizeString (t_type t);
                  PLUGINS = filter (\<lambda>pi. '''' = pi_type pi \<or>
                                (TARGET_TYPE = pi_type pi \<and> canDownload pi \<and>
                                 downloadFiles pi \<noteq> None)) (plugins ME)
              in if length PLUGINS < 1
                 then (Inr (),
                       s\<lparr>world := showWarningMessage ''No matching PLUGINS found!'' (world s)\<rparr>)
                 else (Inr (), whilePlugins D ME files t TARGET_NAME PLUGINS s))))"

text \<open>\<open>pullFileFrom\<close>, lines 33 to 49.\<close>

definition pullFileFrom ::
  "'x env \<Rightarrow> 'x workspace \<Rightarrow> string \<Rightarrow> target option \<Rightarrow> 'x state \<Rightarrow> (error + unit) \<times> 'x state" where
  "pullFileFrom D ME f tgt s =
     (case tgt of
        None \<Rightarrow> (Inr (), s)
      | Some t \<Rightarrow>
          (if \<not> canBeHandledByMe ME (TargetItem t)
           then (Inl (newError (''File '' @ quoted f @ '' cannot be pulled to workspace '' @
                                quoted (fsPath D (folder ME)) @ ''!'')), s)
           else pullFilesFrom D ME [f] (Some t) (Some (t_index t + 1)) s))"

text \<open>
  The quick pick items of \<open>pullPackage\<close>, lines 189 to 199: the action of the item
  of the target at position \<open>i\<close> pulls the files from that target, with the target
  number \<open>i + 1\<close>; the invocation is recorded with the target's \<open>__index\<close>.
\<close>

definition pullQuickPickItems ::
  "'x env \<Rightarrow> 'x workspace \<Rightarrow> string list \<Rightarrow> target list \<Rightarrow> 'x action_quick_pick list" where
  "pullQuickPickItems D ME FILES_TO_PULL targets =
     map (\<lambda>(i, t).
       \<lparr>action = (\<lambda>s'. pullFilesFrom D ME FILES_TO_PULL (Some t) (Some (i + 1))
                         (record_call (TargetAction (t_index t)) s')),
        description = trim (toStringSafe (t_description t)),
        detail = fsPath D (t_workspace t),
        label = template (getTargetName D (Some t))\<rparr>)
       (enumerate 0 targets)"

text \<open>\<open>pullPackage\<close>, lines 167 to 225.\<close>

definition pullPackage ::
  "'x env \<Rightarrow> 'x workspace \<Rightarrow> package option \<Rightarrow> 'x state \<Rightarrow> (error + unit) \<times> 'x state" where
  "pullPackage D ME pkg s =
     (case pkg of
        None \<Rightarrow> (Inr (), s)
      | Some p \<Rightarrow>
          (if \<not> canBeHandledByMe ME (PackageItem p)
           then (Inl (newError (''Package '' @ quoted (getPackageName ME p) @
                                '' cannot be pulled into workspace '' @
                                quoted (fsPath D (folder ME)) @ ''!'')), s)
           else
             (case findFilesByFilter ME p (world s) of
                (Inl e, w) \<Rightarrow> (Inl e, s\<lparr>world := w\<rparr>)
              | (Inr FILES_TO_PULL, w) \<Rightarrow>
                  (if length FILES_TO_PULL < 1
                   then (Inr (), s\<lparr>world := showWarningMessage ''No FILES found!'' w\<rparr>)
                   else
                     (let QUICK_PICK_ITEMS =
                            pullQuickPickItems D ME FILES_TO_PULL (getTargets ME)
                      in if length QUICK_PICK_ITEMS < 1
                         then (Inr (), s\<lparr>world := showWarningMessage ''No TARGETS found!'' w\<rparr>)
                         else selectAndInvoke D QUICK_PICK_ITEMS
                                ''Select the TARGET to pull from...'' (s\<lparr>world := w\<rparr>))))))"

section \<open>A workspace to run the functions on\<close>

text \<open>
  The rest of the world of the example: whether the workspace is in its finalize
  state, and the files written so far.
\<close>

record example_ext =
  finalizing :: bool
  written :: "(string \<times> string) list"

text \<open>
  The open executor of the example resolves to \<open>false\<close> on the payload \<open>stop\<close>,
  puts the workspace into its finalize state on \<open>teardown\<close>, and resolves to
  \<open>null\<close> otherwise. The chooser finds no selection; \<open>locked.txt\<close> cannot be
  written.
\<close>

definition example_env :: "example_ext env" where
  "example_env =
     \<lparr>isEmptyString = (\<lambda>s. trim s = ''''),
      evalCondition = (\<lambda>c. if c = ''true'' then Inr True else if c = ''false'' then Inr False
                            else Inl (Thrown ''bad condition'')),
      isInFinalizeState = (\<lambda>ws w. finalizing (ext w)),
      open_execute = (\<lambda>c w.
        if op_target (ctx_operation c) = Some ''stop'' then (Inr (RBool False), w)
        else if op_target (ctx_operation c) = Some ''teardown''
        then (Inr RVoid, w\<lparr>ext := (ext w)\<lparr>finalizing := True\<rparr>\<rparr>)
        else (Inr RNull, w)),
      translate = (\<lambda>ws key n. ''Target #'' @ replicate n CHR ''I''),
      fsPath = (\<lambda>ws. ''/ws''),
      showQuickPick = (\<lambda>items placeHolder w. (Inr None, w)),
      writeFile = (\<lambda>f content w.
        if f = ''locked.txt'' then (Inl (Thrown ''EACCES''), w)
        else (Inr (), w\<lparr>ext := (ext w)\<lparr>written := written (ext w) @ [(f, content)]\<rparr>\<rparr>))\<rparr>"

definition example_target :: target where
  "example_target =
     \<lparr>t_name = Some ''Prod'', t_type = Some ''SFTP '', t_description = None,
      beforeDeploy = Array [Str ''a.txt'', Str ''stop'', Str ''c.txt''],
      deployed = Array [Str ''teardown'',
        Operation \<lparr>op_type = Some ''open'', op_if = None, op_target = Some ''b.txt''\<rparr>],
      t_index = 0, t_workspace = 0\<rparr>"

definition other_target :: target where
  "other_target =
     \<lparr>t_name = None, t_type = Some ''ftp'', t_description = Some ''mirror'',
      beforeDeploy = Missing, deployed = Missing, t_index = 1, t_workspace = 0\<rparr>"

definition example_world :: "example_ext world" where
  "example_world =
     \<lparr>outputChannel = [], shownWarnings = [], ext = \<lparr>finalizing = False, written = []\<rparr>\<rparr>"

definition example_state :: "example_ext state" where
  "example_state = \<lparr>calls = [], world = example_world\<rparr>"

text \<open>
  A plugin that serves every file it is handed: it calls the file's two callbacks,
  the second with the content \<open>data\<close>.
\<close>

fun downloadEach ::
  "example_ext file_to_download list \<Rightarrow> example_ext world \<Rightarrow> example_ext world" where
  "downloadEach [] w = w"
| "downloadEach (sf # sfs) w =
     downloadEach sfs
       (snd (onDownloadCompleted sf None (Some (DownloadedFile (Inr ''data'')))
          (snd (onBeforeDownload sf None w))))"

definition offline_plugin :: "example_ext plugin" where
  "offline_plugin =
     \<lparr>pi_index = 0, pi_type = '''', canDownload = False,
      downloadFiles = Some (\<lambda>ctx w. (Inl (Thrown ''offline''), w))\<rparr>"

definition sftp_plugin :: "example_ext plugin" where
  "sftp_plugin =
     \<lparr>pi_index = 3, pi_type = ''sftp'', canDownload = True,
      downloadFiles = Some (\<lambda>ctx w. (Inr (), downloadEach (dl_files ctx) w))\<rparr>"

text \<open>A plugin of the empty type that has no \<open>downloadFiles\<close>.\<close>

definition inspector_plugin :: "example_ext plugin" where
  "inspector_plugin =
     \<lparr>pi_index = 4, pi_type = '''', canDownload = False, downloadFiles = None\<rparr>"

definition example_plugins :: "example_ext plugin list" where
  "example_plugins =
     [offline_plugin,
      \<lparr>pi_index = 1, pi_type = ''ftp'', canDownload = True,
       downloadFiles = Some (\<lambda>ctx w. (Inr (), downloadEach (dl_files ctx) w))\<rparr>,
      \<lparr>pi_index = 2, pi_type = ''sftp'', canDownload = False,
       downloadFiles = Some (\<lambda>ctx w. (Inr (), downloadEach (dl_files ctx) w))\<rparr>,
      sftp_plugin,
      inspector_plugin]"

definition example_workspace :: "example_ext workspace" where
  "example_workspace =
     \<lparr>plugins = example_plugins,
      toNameAndPath = (\<lambda>f. if f = ''ghost.txt'' then None
                            else Some \<lparr>nap_name = f, nap_path = ''/''\<rparr>),
      canBeHandledByMe = (\<lambda>item. True),
      getTargets = [example_target],
      findFilesByFilter = (\<lambda>p w. (Inr [''a.txt''], w)),
      folder = 0,
      getPackageName = (\<lambda>p. toStringSafe (p_name p))\<rparr>"

definition example_package :: package where
  "example_package = \<lparr>p_name = Some ''site'', p_index = 0, p_workspace = 0\<rparr>"


definition sftp_workspace :: "example_ext workspace" where
  "sftp_workspace = example_workspace\<lparr>plugins := [sftp_plugin]\<rparr>"

definition inspector_workspace :: "example_ext workspace" where
  "inspector_workspace = example_workspace\<lparr>plugins := [inspector_plugin]\<rparr>"

text \<open>The descriptor of a file that resolves, in a pull from the target \<open>Prod\<close>.\<close>

definition example_file :: "string \<Rightarrow> example_ext file_to_download" where
  "example_file f =
     \<lparr>sf_file = f, sf_name_and_path = \<lparr>nap_name = f, nap_path = ''/''\<rparr>,
      onBeforeDownload = sf_onBeforeDownload f ''Prod'',
      onDownloadCompleted = sf_onDownloadCompleted example_env f\<rparr>"

text \<open>
  A chooser that selects the second item, a workspace with two targets, and an action
  that does nothing.
\<close>

definition choosing_env :: "example_ext env" where
  "choosing_env =
     example_env\<lparr>showQuickPick := (\<lambda>items placeHolder w. (Inr (Some (items ! 1)), w))\<rparr>"

definition two_target_workspace :: "example_ext workspace" where
  "two_target_workspace = example_workspace\<lparr>getTargets := [example_target, other_target]\<rparr>"

definition example_action :: "target \<Rightarrow> example_ext state \<Rightarrow> (error + unit) \<times> example_ext state" where
  "example_action t s = (Inr (), s)"

section \<open>Properties of executeTargetOperations\<close>

lemmas example_defs =
  example_env_def example_target_def example_state_def example_world_def asArray_def
  operationsFromTarget_def operationToExecute_def executorOf_def normalizeString_def
  toStringSafe_def toLowerCase_def toLowerChar_def trim_def isWhiteSpace_def firstOrDefault_def
  toBooleanSafe_def

lemma forOperations_append:
  "forOperations D t ev prev (xs @ ys) s =
     (case forOperations D t ev prev xs s of
        Return r s' \<Rightarrow> Return r s'
      | Continue prev' s' \<Rightarrow> forOperations D t ev prev' ys s')"
  by (induction xs arbitrary: prev s) (auto split: iteration.splits)

text \<open>
  C10. Called with no target (\<open>null\<close> or \<open>undefined\<close>), \<open>executeTargetOperations\<close>
  resolves with \<open>undefined\<close>, neither true nor false; no executor is invoked and the
  world is not touched: the state is the one it was called in. The boolean result is
  only had with a target.
\<close>

theorem executeTargetOperations_without_target:
  "executeTargetOperations D None operationEvent s = (Inr None, s)"
  by (simp add: executeTargetOperations_def)

theorem executeTargetOperations_without_target_witness:
  "executeTargetOperations example_env None BeforeDeploy example_state = (Inr None, example_state)"
  using executeTargetOperations_without_target [of example_env BeforeDeploy example_state] .

text \<open>
  C2. The target has at least three operations for the event. The first one is
  executed (its executor is \<open>e1\<close>, invoked with the context \<open>c1\<close>) and does not
  abort; the executor \<open>e2\<close> of the second one, invoked with the context \<open>c2\<close> that
  links back to \<open>c1\<close>, resolves to false. Then exactly these two executor
  invocations are made, the third operation and the later ones are never looked at,
  and the function resolves with false.
\<close>

theorem second_operation_false_aborts:
  assumes ops: "asArray (operationsFromTarget t ev) = v1 # v2 # v3 # others"
    and c1: "c1 = Context [] ev o1 None t (normalizeString (op_type o1))"
    and c2: "c2 = Context [] ev o2 (Some c1) t (normalizeString (op_type o2))"
    and nf1: "\<not> isInFinalizeState D (t_workspace t) (world s)"
    and op1: "operationToExecute D v1 = Inr (Some o1)"
    and ex1: "executorOf D (normalizeString (op_type o1)) = Some e1"
    and r1: "e1 c1 (world s) = (Inr res1, w1)"
    and go1: "toBooleanSafe res1 True"
    and nf2: "\<not> isInFinalizeState D (t_workspace t) w1"
    and op2: "operationToExecute D v2 = Inr (Some o2)"
    and ex2: "executorOf D (normalizeString (op_type o2)) = Some e2"
    and r2: "e2 c2 w1 = (Inr (RBool False), w2)"
  shows "executeTargetOperations D (Some t) ev s =
           (Inr (Some False), \<lparr>calls = calls s @ [Executed c1, Executed c2], world = w2\<rparr>)"
proof -
  let ?s1 = "\<lparr>calls = calls s @ [Executed c1], world = w1\<rparr>"
  have i1: "iteration D t ev None v1 s = Continue (Some c1) ?s1"
    using nf1 op1 ex1 r1 go1
    by (simp add: iteration_def invokeExecutor_def record_call_def Let_def c1)
  have i2: "iteration D t ev (Some c1) v2 ?s1 =
              Return (Inr (Some False)) \<lparr>calls = calls s @ [Executed c1, Executed c2], world = w2\<rparr>"
    using nf2 op2 ex2 r2
    by (simp add: iteration_def invokeExecutor_def record_call_def Let_def c2 toBooleanSafe_def)
  show ?thesis
    by (simp add: executeTargetOperations_def ops i1 i2)
qed

theorem second_operation_false_aborts_witness:
  "executeTargetOperations example_env (Some example_target) BeforeDeploy example_state =
     (Inr (Some False),
      \<lparr>calls =
         [Executed (Context [] BeforeDeploy
            \<lparr>op_type = Some '''', op_if = None, op_target = Some ''a.txt''\<rparr> None example_target ''''),
          Executed (Context [] BeforeDeploy
            \<lparr>op_type = Some '''', op_if = None, op_target = Some ''stop''\<rparr>
            (Some (Context [] BeforeDeploy
               \<lparr>op_type = Some '''', op_if = None, op_target = Some ''a.txt''\<rparr> None example_target ''''))
            example_target '''')],
       world = example_world\<rparr>)"
proof -
  let ?o1 = "\<lparr>op_type = Some '''', op_if = None, op_target = Some ''a.txt''\<rparr>"
  let ?o2 = "\<lparr>op_type = Some '''', op_if = None, op_target = Some ''stop''\<rparr>"
  let ?c1 = "Context [] BeforeDeploy ?o1 None example_target ''''"
  let ?c2 = "Context [] BeforeDeploy ?o2 (Some ?c1) example_target ''''"
  have "executeTargetOperations example_env (Some example_target) BeforeDeploy example_state =
          (Inr (Some False),
           \<lparr>calls = calls example_state @ [Executed ?c1, Executed ?c2], world = example_world\<rparr>)"
  proof (rule second_operation_false_aborts [where ?o1.0 = ?o1 and ?o2.0 = ?o2
        and ?e1.0 = "open_execute example_env" and ?e2.0 = "open_execute example_env"
        and ?res1.0 = RNull and ?w1.0 = example_world and ?v3.0 = "Str ''c.txt''"
        and others = "[]" and ?v1.0 = "Str ''a.txt''" and ?v2.0 = "Str ''stop''"])
    show "asArray (operationsFromTarget example_target BeforeDeploy) =
            [Str ''a.txt'', Str ''stop'', Str ''c.txt'']"
      by (simp add: example_defs)
  qed (simp_all add: example_defs)
  then show ?thesis by (simp add: example_state_def)
qed

text \<open>
  C3. The operations before the entry \<open>v\<close> have run without ending the chain, and
  have left the state \<open>s1\<close>. When the finalize flag of the owning workspace is set
  in \<open>s1\<close>, that is at the top of the iteration of \<open>v\<close>, the function resolves with
  false in the very state \<open>s1\<close>: neither the executor of \<open>v\<close> nor one of a later
  entry is invoked.
\<close>

theorem finalize_state_stops_chain:
  assumes "asArray (operationsFromTarget t ev) = before @ v # later"
    and "forOperations D t ev None before s = Continue prev s1"
    and "isInFinalizeState D (t_workspace t) (world s1)"
  shows "executeTargetOperations D (Some t) ev s = (Inr (Some False), s1)"
  using assms by (simp add: executeTargetOperations_def forOperations_append iteration_def)

theorem finalize_state_stops_chain_witness:
  "executeTargetOperations example_env (Some example_target) AfterDeployed example_state =
     (Inr (Some False),
      \<lparr>calls =
         [Executed (Context [] AfterDeployed
            \<lparr>op_type = Some '''', op_if = None, op_target = Some ''teardown''\<rparr>
            None example_target '''')],
       world = \<lparr>outputChannel = [], shownWarnings = [],
                ext = \<lparr>finalizing = True, written = []\<rparr>\<rparr>\<rparr>)"
proof -
  let ?c = "Context [] AfterDeployed
              \<lparr>op_type = Some '''', op_if = None, op_target = Some ''teardown''\<rparr>
              None example_target ''''"
  let ?s1 = "\<lparr>calls = [Executed ?c],
              world = \<lparr>outputChannel = [], shownWarnings = [],
                       ext = \<lparr>finalizing = True, written = []\<rparr>\<rparr>\<rparr>"
  have a: "asArray (operationsFromTarget example_target AfterDeployed) =
             [Str ''teardown''] @
             Operation \<lparr>op_type = Some ''open'', op_if = None, op_target = Some ''b.txt''\<rparr> # []"
    by (simp add: example_defs)
  have b: "forOperations example_env example_target AfterDeployed None [Str ''teardown'']
             example_state = Continue (Some ?c) ?s1"
    by (simp add: example_defs iteration_def invokeExecutor_def record_call_def Let_def)
  have c: "isInFinalizeState example_env (t_workspace example_target) (world ?s1)"
    by (simp add: example_defs)
  show ?thesis
    using finalize_state_stops_chain [OF a b c] .
qed

text \<open>
  C4, as amended. An entry that is a string \<open>APP\<close> which \<open>isEmptyString\<close> does not
  hold for, and the structured operation of type \<open>open\<close> on \<open>APP\<close>, are both
  handed to the built-in open executor, once, with the same event, target, previous
  context, arguments and payload. The two contexts differ in the type: the string is
  the operation of type \<open>''\<close> and runs with the normalized type \<open>''\<close>, the structured
  operation keeps the type \<open>open\<close>.
\<close>

theorem bare_string_and_open_operation:
  assumes "\<not> isEmptyString D APP"
    and "\<not> isInFinalizeState D (t_workspace t) (world s)"
  shows "iteration D t ev prev (Str APP) s =
           invokeExecutor (open_execute D) ev
             \<lparr>op_type = Some '''', op_if = None, op_target = Some APP\<rparr> prev t '''' s
       \<and> iteration D t ev prev
           (Operation \<lparr>op_type = Some ''open'', op_if = None, op_target = Some APP\<rparr>) s =
           invokeExecutor (open_execute D) ev
             \<lparr>op_type = Some ''open'', op_if = None, op_target = Some APP\<rparr> prev t ''open'' s"
  using assms
  by (simp add: iteration_def operationToExecute_def firstOrDefault_def executorOf_def
      normalizeString_def toStringSafe_def toLowerCase_def toLowerChar_def trim_def
      isWhiteSpace_def Let_def)

theorem bare_string_and_open_operation_witness:
  "iteration example_env example_target BeforeDeploy None (Str ''/tmp/file.txt'') example_state =
     Continue
       (Some (Context [] BeforeDeploy
          \<lparr>op_type = Some '''', op_if = None, op_target = Some ''/tmp/file.txt''\<rparr>
          None example_target ''''))
       \<lparr>calls = [Executed (Context [] BeforeDeploy
          \<lparr>op_type = Some '''', op_if = None, op_target = Some ''/tmp/file.txt''\<rparr>
          None example_target '''')],
        world = example_world\<rparr>
   \<and> iteration example_env example_target BeforeDeploy None
       (Operation \<lparr>op_type = Some ''open'', op_if = None, op_target = Some ''/tmp/file.txt''\<rparr>)
       example_state =
     Continue
       (Some (Context [] BeforeDeploy
          \<lparr>op_type = Some ''open'', op_if = None, op_target = Some ''/tmp/file.txt''\<rparr>
          None example_target ''open''))
       \<lparr>calls = [Executed (Context [] BeforeDeploy
          \<lparr>op_type = Some ''open'', op_if = None, op_target = Some ''/tmp/file.txt''\<rparr>
          None example_target ''open'')],
        world = example_world\<rparr>"
proof -
  have a: "\<not> isEmptyString example_env ''/tmp/file.txt''"
    by (simp add: example_defs)
  have b: "\<not> isInFinalizeState example_env (t_workspace example_target) (world example_state)"
    by (simp add: example_defs)
  show ?thesis
    using bare_string_and_open_operation [OF a b, of BeforeDeploy None]
    by (simp add: invokeExecutor_def record_call_def example_env_def example_state_def
        toBooleanSafe_def Let_def)
qed

text \<open>
  C4, as stated, fails: the invocation for the string \<open>/tmp/file.txt\<close> is not the
  invocation for the structured operation of type \<open>open\<close> on \<open>/tmp/file.txt\<close>; the
  contexts the executor is invoked with are not the same.
\<close>

theorem bare_string_same_invocation_counterexample:
  "iteration example_env example_target BeforeDeploy None (Str ''/tmp/file.txt'') example_state \<noteq>
   iteration example_env example_target BeforeDeploy None
     (Operation \<lparr>op_type = Some ''open'', op_if = None, op_target = Some ''/tmp/file.txt''\<rparr>)
     example_state"
  by (simp add: iteration_def invokeExecutor_def record_call_def example_defs Let_def)

section \<open>Properties of pullFilesFrom\<close>

lemma filterNotNull_simps:
  "filterNotNull [] = []"
  "filterNotNull (None # xs) = filterNotNull xs"
  "filterNotNull (Some x # xs) = x # filterNotNull xs"
  by (simp_all add: filterNotNull_def)

lemma mapFiles_files:
  "mapFiles D ME TARGET_NAME files w = (mapped, w') \<Longrightarrow>
     map sf_file (filterNotNull mapped) = [f \<leftarrow> files. toNameAndPath ME f \<noteq> None]"
  by (induction files arbitrary: w mapped w')
     (auto simp: toDownload_def filterNotNull_simps split: prod.splits option.splits)

lemma mapFiles_output:
  "mapFiles D ME TARGET_NAME files w = (mapped, w') \<Longrightarrow>
     outputChannel w' =
       outputChannel w @
       map (\<lambda>f. Append (cannotDetectMessage f)) [f \<leftarrow> files. toNameAndPath ME f = None]"
proof (induction files arbitrary: w mapped w')
  case Nil
  then show ?case by simp
next
  case (Cons f fs)
  obtain sf w1 where t: "toDownload D ME TARGET_NAME f w = (sf, w1)"
    by (cases "toDownload D ME TARGET_NAME f w") auto
  obtain sfs w2 where m: "mapFiles D ME TARGET_NAME fs w1 = (sfs, w2)"
    by (cases "mapFiles D ME TARGET_NAME fs w1") auto
  have w2: "w' = w2"
    using Cons.prems t m by simp
  have ih: "outputChannel w2 =
              outputChannel w1 @
              map (\<lambda>f. Append (cannotDetectMessage f)) [f \<leftarrow> fs. toNameAndPath ME f = None]"
    using Cons.IH [OF m] .
  show ?case
  proof (cases "toNameAndPath ME f")
    case None
    then have "outputChannel w1 = outputChannel w @ [Append (cannotDetectMessage f)]"
      using t by (auto simp: toDownload_def append_out_def)
    then show ?thesis
      using None ih w2 by simp
  next
    case (Some nap)
    then have "w1 = w"
      using t by (auto simp: toDownload_def)
    then show ?thesis
      using Some ih w2 by simp
  qed
qed

lemma mapFiles_descriptors:
  "mapFiles D ME TARGET_NAME files w = (mapped, w') \<Longrightarrow> sf \<in> set (filterNotNull mapped) \<Longrightarrow>
     onBeforeDownload sf = sf_onBeforeDownload (sf_file sf) TARGET_NAME \<and>
     onDownloadCompleted sf = sf_onDownloadCompleted D (sf_file sf) \<and>
     toNameAndPath ME (sf_file sf) = Some (sf_name_and_path sf) \<and>
     sf_file sf \<in> set files"
proof (induction files arbitrary: w mapped w')
  case Nil
  then show ?case by (simp add: filterNotNull_simps)
next
  case (Cons f fs)
  obtain d w1 where t: "toDownload D ME TARGET_NAME f w = (d, w1)"
    by (cases "toDownload D ME TARGET_NAME f w") auto
  obtain sfs w2 where m: "mapFiles D ME TARGET_NAME fs w1 = (sfs, w2)"
    by (cases "mapFiles D ME TARGET_NAME fs w1") auto
  have mapped: "mapped = d # sfs"
    using Cons.prems(1) t m by simp
  show ?case
  proof (cases "sf \<in> set (filterNotNull sfs)")
    case True
    then show ?thesis
      using Cons.IH [OF m True] by simp
  next
    case False
    then have d: "d = Some sf"
      using Cons.prems(2) mapped by (cases d) (simp_all add: filterNotNull_simps)
    then show ?thesis
      using t by (auto simp: toDownload_def split: option.splits)
  qed
qed

lemma world_record_call:
  "world (record_call c s) = world s"
  by (simp add: record_call_def)

lemma mapFiles_world:
  "mapFiles D ME TARGET_NAME files w = (mapped, w') \<Longrightarrow>
     w' = w\<lparr>outputChannel := outputChannel w @
            map (\<lambda>f. Append (cannotDetectMessage f)) [f \<leftarrow> files. toNameAndPath ME f = None]\<rparr>"
proof (induction files arbitrary: w mapped w')
  case Nil
  then show ?case by simp
next
  case (Cons f fs)
  obtain sf w1 where t: "toDownload D ME TARGET_NAME f w = (sf, w1)"
    by (cases "toDownload D ME TARGET_NAME f w") auto
  obtain sfs w2 where m: "mapFiles D ME TARGET_NAME fs w1 = (sfs, w2)"
    by (cases "mapFiles D ME TARGET_NAME fs w1") auto
  have w2: "w' = w2"
    using Cons.prems t m by simp
  note ih = Cons.IH [OF m]
  show ?case
  proof (cases "toNameAndPath ME f")
    case None
    then have "w1 = w\<lparr>outputChannel := outputChannel w @ [Append (cannotDetectMessage f)]\<rparr>"
      using t by (auto simp: toDownload_def append_out_def)
    then show ?thesis
      using None ih w2 by simp
  next
    case (Some nap)
    then have "w1 = w"
      using t by (auto simp: toDownload_def)
    then show ?thesis
      using Some ih w2 by simp
  qed
qed

lemma pullFromPlugin_catches:
  assumes "mapFiles D ME TARGET_NAME files
             (if 1 < length files
              then appendLine (startMessage TARGET_NAME) (appendLine '''' (world s))
              else appendLine '''' (world s)) = (mapped, w3)"
    and "downloadFiles PI = Some download"
    and "download \<lparr>dl_files = filterNotNull mapped, dl_target = t\<rparr> w3 = (Inl e, w4)"
  shows "pullFromPlugin D ME files t TARGET_NAME PI s =
           \<lparr>calls = calls s @ [DownloadFiles (pi_index PI) (map sf_file (filterNotNull mapped))],
            world = appendLine (failedMessage TARGET_NAME e) w4\<rparr>"
  using assms
  by (cases "1 < length files")
     (simp_all add: pullFromPlugin_def pullFromPlugin_try_def Let_def record_call_def)

lemma pullFromPlugin_resolves:
  assumes "mapFiles D ME TARGET_NAME files
             (if 1 < length files
              then appendLine (startMessage TARGET_NAME) (appendLine '''' (world s))
              else appendLine '''' (world s)) = (mapped, w3)"
    and "downloadFiles PI = Some download"
    and "download \<lparr>dl_files = filterNotNull mapped, dl_target = t\<rparr> w3 = (Inr u, w4)"
  shows "pullFromPlugin D ME files t TARGET_NAME PI s =
           \<lparr>calls = calls s @ [DownloadFiles (pi_index PI) (map sf_file (filterNotNull mapped))],
            world = (if 1 < length files then appendLine (finishedMessage TARGET_NAME) w4
                     else w4)\<rparr>"
  using assms
  by (cases "1 < length files")
     (simp_all add: pullFromPlugin_def pullFromPlugin_try_def Let_def record_call_def)

lemma pullFromPlugin_not_a_function:
  assumes "mapFiles D ME TARGET_NAME files
             (if 1 < length files
              then appendLine (startMessage TARGET_NAME) (appendLine '''' (world s))
              else appendLine '''' (world s)) = (mapped, w3)"
    and "downloadFiles PI = None"
  shows "pullFromPlugin D ME files t TARGET_NAME PI s =
           \<lparr>calls = calls s, world = appendLine (failedMessage TARGET_NAME notAFunction) w3\<rparr>"
  using assms
  by (cases "1 < length files")
     (simp_all add: pullFromPlugin_def pullFromPlugin_try_def Let_def)

lemma calls_pullFromPlugin:
  "calls (pullFromPlugin D ME files t TARGET_NAME PI s) =
     calls s @
     (case downloadFiles PI of
        None \<Rightarrow> []
      | Some download \<Rightarrow>
          [DownloadFiles (pi_index PI) [f \<leftarrow> files. toNameAndPath ME f \<noteq> None]])"
proof -
  let ?w2 = "if 1 < length files
             then appendLine (startMessage TARGET_NAME) (appendLine '''' (world s))
             else appendLine '''' (world s)"
  obtain mapped w3 where m: "mapFiles D ME TARGET_NAME files ?w2 = (mapped, w3)"
    by (cases "mapFiles D ME TARGET_NAME files ?w2") auto
  have f: "map sf_file (filterNotNull mapped) = [f \<leftarrow> files. toNameAndPath ME f \<noteq> None]"
    using mapFiles_files [OF m] .
  show ?thesis
  proof (cases "downloadFiles PI")
    case None
    then show ?thesis
      using pullFromPlugin_not_a_function [OF m None] by simp
  next
    case (Some download)
    obtain r w4 where d: "download \<lparr>dl_files = filterNotNull mapped, dl_target = t\<rparr> w3 = (r, w4)"
      by (cases "download \<lparr>dl_files = filterNotNull mapped, dl_target = t\<rparr> w3") auto
    show ?thesis
    proof (cases r)
      case (Inl e)
      then show ?thesis
        using pullFromPlugin_catches [OF m Some] d f Some by simp
    next
      case (Inr u)
      then show ?thesis
        using pullFromPlugin_resolves [OF m Some] d f Some by simp
    qed
  qed
qed

lemma calls_whilePlugins:
  "calls (whilePlugins D ME files t TARGET_NAME PLUGINS s) =
     calls s @
     concat (map (\<lambda>PI. Shifted (pi_index PI) #
                    (case downloadFiles PI of
                       None \<Rightarrow> []
                     | Some download \<Rightarrow>
                         [DownloadFiles (pi_index PI) [f \<leftarrow> files. toNameAndPath ME f \<noteq> None]]))
               PLUGINS)"
  by (induction PLUGINS arbitrary: s) (simp_all add: calls_pullFromPlugin record_call_def)

lemma pullFilesFrom_unfold:
  assumes "files \<noteq> []"
  shows "pullFilesFrom D ME files (Some t) targetNr s =
           (let PLUGINS = [pi \<leftarrow> plugins ME. '''' = pi_type pi \<or>
                             (normalizeString (t_type t) = pi_type pi \<and> canDownload pi \<and>
                              downloadFiles pi \<noteq> None)]
            in if PLUGINS = []
               then (Inr (),
                     s\<lparr>world := showWarningMessage ''No matching PLUGINS found!'' (world s)\<rparr>)
               else (Inr (),
                     whilePlugins D ME files t (template (getTargetName D (Some t))) PLUGINS s))"
proof -
  have "\<not> length files < 1"
    using assms by (cases files) simp_all
  then show ?thesis
    by (simp add: pullFilesFrom_def Let_def)
qed

text \<open>
  C1, as amended. The list of files is not empty and at least one registered plugin
  matches the target (\<open>PLUGINS\<close> are the matching ones, in the order of the
  registry). Then \<open>pullFilesFrom\<close> resolves, whatever the plugins do. Every
  matching plugin is taken in turn, in that order, and \<open>downloadFiles\<close> is invoked
  exactly once on each matching plugin that has it, and on no other. When the batch
  call of a plugin throws or rejects with \<open>e\<close>, the loop appends the line of the
  failure to the output channel and goes on with the plugins that are left; when
  the call resolves, the loop goes on in the world the plugin has left.
\<close>

theorem pullFilesFrom_tries_every_matching_plugin:
  assumes "files \<noteq> []"
    and "PLUGINS = [pi \<leftarrow> plugins ME. '''' = pi_type pi \<or>
                      (normalizeString (t_type t) = pi_type pi \<and> canDownload pi \<and>
                       downloadFiles pi \<noteq> None)]"
    and "PLUGINS \<noteq> []"
    and "TARGET_NAME = template (getTargetName D (Some t))"
  shows "pullFilesFrom D ME files (Some t) targetNr s =
           (Inr (), whilePlugins D ME files t TARGET_NAME PLUGINS s)
       \<and> calls (whilePlugins D ME files t TARGET_NAME PLUGINS s) =
           calls s @
           concat (map (\<lambda>PI. Shifted (pi_index PI) #
                          (case downloadFiles PI of
                             None \<Rightarrow> []
                           | Some download \<Rightarrow>
                               [DownloadFiles (pi_index PI)
                                  [f \<leftarrow> files. toNameAndPath ME f \<noteq> None]]))
                     PLUGINS)
       \<and> (\<forall>PI others s0 mapped w3 download e w4.
             mapFiles D ME TARGET_NAME files
               (if 1 < length files
                then appendLine (startMessage TARGET_NAME) (appendLine '''' (world s0))
                else appendLine '''' (world s0)) = (mapped, w3) \<and>
             downloadFiles PI = Some download \<and>
             download \<lparr>dl_files = filterNotNull mapped, dl_target = t\<rparr> w3 = (Inl e, w4) \<longrightarrow>
             whilePlugins D ME files t TARGET_NAME (PI # others) s0 =
               whilePlugins D ME files t TARGET_NAME others
                 \<lparr>calls = calls s0 @
                    [Shifted (pi_index PI),
                     DownloadFiles (pi_index PI) (map sf_file (filterNotNull mapped))],
                  world = appendLine (failedMessage TARGET_NAME e) w4\<rparr>)
       \<and> (\<forall>PI others s0 mapped w3 download u w4.
             mapFiles D ME TARGET_NAME files
               (if 1 < length files
                then appendLine (startMessage TARGET_NAME) (appendLine '''' (world s0))
                else appendLine '''' (world s0)) = (mapped, w3) \<and>
             downloadFiles PI = Some download \<and>
             download \<lparr>dl_files = filterNotNull mapped, dl_target = t\<rparr> w3 = (Inr u, w4) \<longrightarrow>
             whilePlugins D ME files t TARGET_NAME (PI # others) s0 =
               whilePlugins D ME files t TARGET_NAME others
                 \<lparr>calls = calls s0 @
                    [Shifted (pi_index PI),
                     DownloadFiles (pi_index PI) (map sf_file (filterNotNull mapped))],
                  world = (if 1 < length files
                           then appendLine (finishedMessage TARGET_NAME) w4 else w4)\<rparr>)"
proof -
  have run: "pullFilesFrom D ME files (Some t) targetNr s =
               (Inr (), whilePlugins D ME files t TARGET_NAME PLUGINS s)"
    using assms by (simp add: pullFilesFrom_unfold Let_def)
  have caught: "whilePlugins D ME files t TARGET_NAME (PI # others) s0 =
      whilePlugins D ME files t TARGET_NAME others
        \<lparr>calls = calls s0 @
           [Shifted (pi_index PI),
            DownloadFiles (pi_index PI) (map sf_file (filterNotNull mapped))],
         world = appendLine (failedMessage TARGET_NAME e) w4\<rparr>"
    if "mapFiles D ME TARGET_NAME files
          (if 1 < length files
           then appendLine (startMessage TARGET_NAME) (appendLine '''' (world s0))
           else appendLine '''' (world s0)) = (mapped, w3)"
      and "downloadFiles PI = Some download"
      and "download \<lparr>dl_files = filterNotNull mapped, dl_target = t\<rparr> w3 = (Inl e, w4)"
    for PI others s0 mapped w3 download e w4
  proof -
    have "mapFiles D ME TARGET_NAME files
          (if 1 < length files
           then appendLine (startMessage TARGET_NAME)
                  (appendLine '''' (world (record_call (Shifted (pi_index PI)) s0)))
           else appendLine '''' (world (record_call (Shifted (pi_index PI)) s0))) = (mapped, w3)"
      unfolding world_record_call by (rule that(1))
    from pullFromPlugin_catches [OF this that(2) that(3)] show ?thesis
      by (simp add: record_call_def)
  qed
  have resolved: "whilePlugins D ME files t TARGET_NAME (PI # others) s0 =
      whilePlugins D ME files t TARGET_NAME others
        \<lparr>calls = calls s0 @
           [Shifted (pi_index PI),
            DownloadFiles (pi_index PI) (map sf_file (filterNotNull mapped))],
         world = (if 1 < length files
                  then appendLine (finishedMessage TARGET_NAME) w4 else w4)\<rparr>"
    if "mapFiles D ME TARGET_NAME files
          (if 1 < length files
           then appendLine (startMessage TARGET_NAME) (appendLine '''' (world s0))
           else appendLine '''' (world s0)) = (mapped, w3)"
      and "downloadFiles PI = Some download"
      and "download \<lparr>dl_files = filterNotNull mapped, dl_target = t\<rparr> w3 = (Inr u, w4)"
    for PI others s0 mapped w3 download u w4
  proof -
    have "mapFiles D ME TARGET_NAME files
          (if 1 < length files
           then appendLine (startMessage TARGET_NAME)
                  (appendLine '''' (world (record_call (Shifted (pi_index PI)) s0)))
           else appendLine '''' (world (record_call (Shifted (pi_index PI)) s0))) = (mapped, w3)"
      unfolding world_record_call by (rule that(1))
    from pullFromPlugin_resolves [OF this that(2) that(3)] show ?thesis
      by (simp add: record_call_def)
  qed
  have history: "calls (whilePlugins D ME files t TARGET_NAME PLUGINS s) =
           calls s @
           concat (map (\<lambda>PI. Shifted (pi_index PI) #
                          (case downloadFiles PI of
                             None \<Rightarrow> []
                           | Some download \<Rightarrow>
                               [DownloadFiles (pi_index PI)
                                  [f \<leftarrow> files. toNameAndPath ME f \<noteq> None]]))
                     PLUGINS)"
    by (rule calls_whilePlugins)
  show ?thesis
    using run history caught resolved by blast
qed


text \<open>
  C6, as amended. In every batch, whatever the number of its files, the \<open>before\<close>
  callback of a file's descriptor appends the start message of the file to the
  output channel. What depends on the batch having more than one file is the banner
  of the batch: the start line before the files are mapped and, when the plugin
  resolves, the finish line.
\<close>

theorem onBeforeDownload_logs_in_every_batch:
  assumes "mapFiles D ME TARGET_NAME files
             (if 1 < length files
              then appendLine (startMessage TARGET_NAME) (appendLine '''' (world s))
              else appendLine '''' (world s)) = (mapped, w3)"
    and "sf \<in> set (filterNotNull mapped)"
    and "downloadFiles PI = Some download"
    and "download \<lparr>dl_files = filterNotNull mapped, dl_target = t\<rparr> w3 = (Inr u, w4)"
  shows "onBeforeDownload sf destination w =
           (Inr (), w\<lparr>outputChannel := outputChannel w @
                        [Append (pullingFileMessage (sf_file sf) TARGET_NAME)]\<rparr>)
       \<and> outputChannel w3 =
           outputChannel (world s) @ [AppendLine ''''] @
           (if 1 < length files then [AppendLine (startMessage TARGET_NAME)] else []) @
           map (\<lambda>f. Append (cannotDetectMessage f)) [f \<leftarrow> files. toNameAndPath ME f = None]
       \<and> world (pullFromPlugin D ME files t TARGET_NAME PI s) =
           (if 1 < length files then appendLine (finishedMessage TARGET_NAME) w4 else w4)"
proof -
  have "onBeforeDownload sf = sf_onBeforeDownload (sf_file sf) TARGET_NAME"
    using mapFiles_descriptors [OF assms(1) assms(2)] by simp
  then have a: "onBeforeDownload sf destination w =
           (Inr (), w\<lparr>outputChannel := outputChannel w @
                        [Append (pullingFileMessage (sf_file sf) TARGET_NAME)]\<rparr>)"
    by (simp add: sf_onBeforeDownload_def append_out_def)
  have b: "outputChannel w3 =
           outputChannel (world s) @ [AppendLine ''''] @
           (if 1 < length files then [AppendLine (startMessage TARGET_NAME)] else []) @
           map (\<lambda>f. Append (cannotDetectMessage f)) [f \<leftarrow> files. toNameAndPath ME f = None]"
    using mapFiles_output [OF assms(1)] by (simp add: appendLine_def)
  have c: "world (pullFromPlugin D ME files t TARGET_NAME PI s) =
           (if 1 < length files then appendLine (finishedMessage TARGET_NAME) w4 else w4)"
    using pullFromPlugin_resolves [OF assms(1) assms(3) assms(4)] by simp
  show ?thesis
    using a b c by simp
qed

text \<open>
  C7. In the pass of the loop for a plugin that has \<open>downloadFiles\<close>, started in
  the state \<open>s\<close>: the files of the batch that the workspace resolves a name and
  path for get a descriptor, in the order of the files, each with the name and path
  resolved for its file; for each of the others one line is appended to the output
  channel, and nothing else happens to the world before the plugin is called. The
  plugin is called once, in that world, with the descriptors of the resolvable files
  and of no other, whatever the number of unresolvable files; the pass ends in the
  world the plugin has left, with the line of the failure or the finish banner. A
  pull with that plugin first among the matching ones does just this and goes on
  with the others.
\<close>

theorem unresolvable_files_are_dropped:
  assumes "mapFiles D ME TARGET_NAME files
             (if 1 < length files
              then appendLine (startMessage TARGET_NAME) (appendLine '''' (world s))
              else appendLine '''' (world s)) = (mapped, w3)"
    and "downloadFiles PI = Some download"
    and "download \<lparr>dl_files = filterNotNull mapped, dl_target = t\<rparr> w3 = (r, w4)"
  shows "map sf_file (filterNotNull mapped) = [f \<leftarrow> files. toNameAndPath ME f \<noteq> None]
       \<and> (\<forall>sf \<in> set (filterNotNull mapped).
             toNameAndPath ME (sf_file sf) = Some (sf_name_and_path sf))
       \<and> w3 = (world s)
             \<lparr>outputChannel := outputChannel (world s) @ [AppendLine ''''] @
                (if 1 < length files then [AppendLine (startMessage TARGET_NAME)] else []) @
                map (\<lambda>f. Append (cannotDetectMessage f))
                  [f \<leftarrow> files. toNameAndPath ME f = None]\<rparr>
       \<and> pullFromPlugin D ME files t TARGET_NAME PI s =
           \<lparr>calls = calls s @
              [DownloadFiles (pi_index PI) [f \<leftarrow> files. toNameAndPath ME f \<noteq> None]],
            world = (case r of
                       Inl e \<Rightarrow> appendLine (failedMessage TARGET_NAME e) w4
                     | Inr u \<Rightarrow>
                         (if 1 < length files
                          then appendLine (finishedMessage TARGET_NAME) w4 else w4))\<rparr>
       \<and> (files \<noteq> [] \<and> TARGET_NAME = template (getTargetName D (Some t)) \<and>
          [pi \<leftarrow> plugins ME. '''' = pi_type pi \<or>
             (normalizeString (t_type t) = pi_type pi \<and> canDownload pi \<and>
              downloadFiles pi \<noteq> None)] = PI # others \<longrightarrow>
          pullFilesFrom D ME files (Some t) targetNr s =
            (Inr (),
             whilePlugins D ME files t TARGET_NAME others
               \<lparr>calls = calls s @
                  [Shifted (pi_index PI),
                   DownloadFiles (pi_index PI) [f \<leftarrow> files. toNameAndPath ME f \<noteq> None]],
                world = (case r of
                           Inl e \<Rightarrow> appendLine (failedMessage TARGET_NAME e) w4
                         | Inr u \<Rightarrow>
                             (if 1 < length files
                              then appendLine (finishedMessage TARGET_NAME) w4 else w4))\<rparr>))"
proof -
  have files: "map sf_file (filterNotNull mapped) = [f \<leftarrow> files. toNameAndPath ME f \<noteq> None]"
    using mapFiles_files [OF assms(1)] .
  have paths: "\<forall>sf \<in> set (filterNotNull mapped).
                 toNameAndPath ME (sf_file sf) = Some (sf_name_and_path sf)"
    using mapFiles_descriptors [OF assms(1)] by simp
  have w3: "w3 = (world s)
             \<lparr>outputChannel := outputChannel (world s) @ [AppendLine ''''] @
                (if 1 < length files then [AppendLine (startMessage TARGET_NAME)] else []) @
                map (\<lambda>f. Append (cannotDetectMessage f))
                  [f \<leftarrow> files. toNameAndPath ME f = None]\<rparr>"
    using mapFiles_world [OF assms(1)] by (simp add: appendLine_def)
  have pass: "pullFromPlugin D ME files t TARGET_NAME PI s0 =
           \<lparr>calls = calls s0 @
              [DownloadFiles (pi_index PI) [f \<leftarrow> files. toNameAndPath ME f \<noteq> None]],
            world = (case r of
                       Inl e \<Rightarrow> appendLine (failedMessage TARGET_NAME e) w4
                     | Inr u \<Rightarrow>
                         (if 1 < length files
                          then appendLine (finishedMessage TARGET_NAME) w4 else w4))\<rparr>"
    if "world s0 = world s" for s0
  proof -
    have m: "mapFiles D ME TARGET_NAME files
             (if 1 < length files
              then appendLine (startMessage TARGET_NAME) (appendLine '''' (world s0))
              else appendLine '''' (world s0)) = (mapped, w3)"
      unfolding that by (rule assms(1))
    show ?thesis
    proof (cases r)
      case (Inl e)
      then show ?thesis
        using pullFromPlugin_catches [OF m assms(2)] assms(3) files by simp
    next
      case (Inr u)
      then show ?thesis
        using pullFromPlugin_resolves [OF m assms(2)] assms(3) files by simp
    qed
  qed
  have pull: "pullFilesFrom D ME files (Some t) targetNr s =
            (Inr (),
             whilePlugins D ME files t TARGET_NAME others
               \<lparr>calls = calls s @
                  [Shifted (pi_index PI),
                   DownloadFiles (pi_index PI) [f \<leftarrow> files. toNameAndPath ME f \<noteq> None]],
                world = (case r of
                           Inl e \<Rightarrow> appendLine (failedMessage TARGET_NAME e) w4
                         | Inr u \<Rightarrow>
                             (if 1 < length files
                              then appendLine (finishedMessage TARGET_NAME) w4 else w4))\<rparr>)"
    if "files \<noteq> []" and "TARGET_NAME = template (getTargetName D (Some t))"
      and "[pi \<leftarrow> plugins ME. '''' = pi_type pi \<or>
             (normalizeString (t_type t) = pi_type pi \<and> canDownload pi \<and>
              downloadFiles pi \<noteq> None)] = PI # others"
  proof -
    have "pullFilesFrom D ME files (Some t) targetNr s =
            (Inr (), whilePlugins D ME files t TARGET_NAME (PI # others) s)"
      unfolding pullFilesFrom_unfold [OF that(1)] that(3) Let_def that(2) by simp
    then show ?thesis
      using pass [of "record_call (Shifted (pi_index PI)) s"]
      by (simp add: record_call_def)
  qed
  show ?thesis
    using files paths w3 pass [of s] pull by blast
qed

text \<open>
  C8. The completion callback of a file's descriptor always resolves. With an error
  it appends the line \<open>[ERROR: ...]\<close> of the error and writes nothing. Without an
  error and with a downloaded file that can be read, it writes the content to the
  path of the file and then appends \<open>[OK]\<close>. When reading or writing throws, the
  line \<open>[ERROR: ...]\<close> of what was thrown is appended instead.
\<close>

theorem onDownloadCompleted_never_rejects:
  assumes "mapFiles D ME TARGET_NAME files w0 = (mapped, w1)"
    and "sf \<in> set (filterNotNull mapped)"
  shows "fst (onDownloadCompleted sf err downloadedFile w) = Inr ()
       \<and> (\<forall>e. err = Some e \<longrightarrow>
             onDownloadCompleted sf err downloadedFile w = (Inr (), appendLine (errorLine e) w))
       \<and> (\<forall>d content w'. err = None \<and> downloadedFile = Some d \<and> df_read d = Inr content \<and>
             writeFile D (sf_file sf) content w = (Inr (), w') \<longrightarrow>
             onDownloadCompleted sf err downloadedFile w = (Inr (), appendLine ''[OK]'' w'))
       \<and> (\<forall>d content e w'. err = None \<and> downloadedFile = Some d \<and> df_read d = Inr content \<and>
             writeFile D (sf_file sf) content w = (Inl e, w') \<longrightarrow>
             onDownloadCompleted sf err downloadedFile w = (Inr (), appendLine (errorLine e) w'))
       \<and> (\<forall>d e. err = None \<and> downloadedFile = Some d \<and> df_read d = Inl e \<longrightarrow>
             onDownloadCompleted sf err downloadedFile w = (Inr (), appendLine (errorLine e) w))"
proof -
  have cb: "onDownloadCompleted sf = sf_onDownloadCompleted D (sf_file sf)"
    using mapFiles_descriptors [OF assms] by simp
  have "fst (sf_onDownloadCompleted D (sf_file sf) err downloadedFile w) = Inr ()"
    by (simp add: sf_onDownloadCompleted_def split: prod.splits sum.splits)
  then show ?thesis
    by (simp add: cb sf_onDownloadCompleted_def onDownloadCompleted_try_def)
qed

lemma normalized_type_of_example_target:
  "normalizeString (t_type example_target) = ''sftp''"
proof -
  have "normalizeString (Some ''SFTP '') = ''sftp''"
    by code_simp
  then show ?thesis
    by (simp add: example_target_def)
qed

lemma name_of_example_target:
  "template (getTargetName D (Some example_target)) = ''Prod''"
proof -
  have "trim ''Prod'' = ''Prod''"
    by code_simp
  then show ?thesis
    by (simp add: template_def getTargetName_def example_target_def toStringSafe_def)
qed

lemma matching_example_plugins:
  "[pi \<leftarrow> plugins example_workspace. '''' = pi_type pi \<or>
      (normalizeString (t_type example_target) = pi_type pi \<and> canDownload pi \<and>
       downloadFiles pi \<noteq> None)] =
   [offline_plugin, sftp_plugin, inspector_plugin]"
  by (simp add: normalized_type_of_example_target example_workspace_def example_plugins_def
      offline_plugin_def sftp_plugin_def inspector_plugin_def)

lemma sf_file_example_file:
  "sf_file (example_file f) = f"
  by (simp add: example_file_def)

lemma mapFiles_with_ghost_example:
  "mapFiles example_env example_workspace ''Prod'' [''a.txt'', ''ghost.txt''] w =
     ([Some (example_file ''a.txt''), None], append_out (cannotDetectMessage ''ghost.txt'') w)"
  by (simp add: toDownload_def example_workspace_def example_file_def)

theorem pullFilesFrom_tries_every_matching_plugin_witness:
  "pullFilesFrom example_env example_workspace [''a.txt'', ''ghost.txt'']
     (Some example_target) None example_state =
     (Inr (),
      whilePlugins example_env example_workspace [''a.txt'', ''ghost.txt''] example_target
        ''Prod'' [offline_plugin, sftp_plugin, inspector_plugin] example_state)
   \<and> calls (whilePlugins example_env example_workspace [''a.txt'', ''ghost.txt'']
        example_target ''Prod'' [offline_plugin, sftp_plugin, inspector_plugin] example_state) =
       [Shifted 0, DownloadFiles 0 [''a.txt''], Shifted 3, DownloadFiles 3 [''a.txt''],
        Shifted 4]
   \<and> whilePlugins example_env example_workspace [''a.txt'', ''ghost.txt''] example_target
         ''Prod'' [offline_plugin] example_state =
       \<lparr>calls = [Shifted 0, DownloadFiles 0 [''a.txt'']],
        world = appendLine (failedMessage ''Prod'' (Thrown ''offline''))
                  (append_out (cannotDetectMessage ''ghost.txt'')
                     (appendLine (startMessage ''Prod'') (appendLine '''' example_world)))\<rparr>
   \<and> whilePlugins example_env example_workspace [''a.txt'', ''ghost.txt''] example_target
         ''Prod'' [sftp_plugin] example_state =
       \<lparr>calls = [Shifted 3, DownloadFiles 3 [''a.txt'']],
        world = appendLine (finishedMessage ''Prod'')
                  (downloadEach [example_file ''a.txt'']
                     (append_out (cannotDetectMessage ''ghost.txt'')
                        (appendLine (startMessage ''Prod'') (appendLine '''' example_world))))\<rparr>"
proof -
  let ?files = "[''a.txt'', ''ghost.txt'']"
  let ?PLUGINS = "[offline_plugin, sftp_plugin, inspector_plugin]"
  let ?mapped = "[Some (example_file ''a.txt''), None]"
  let ?w3 = "append_out (cannotDetectMessage ''ghost.txt'')
               (appendLine (startMessage ''Prod'') (appendLine '''' example_world))"
  let ?offline = "\<lambda>(ctx :: example_ext download_context) (w :: example_ext world).
                     (Inl (Thrown ''offline'') :: error + unit, w)"
  let ?sftp = "\<lambda>(ctx :: example_ext download_context) w.
                     (Inr () :: error + unit, downloadEach (dl_files ctx) w)"
  have h1: "?files \<noteq> []"
    by simp
  have h2: "?PLUGINS = [pi \<leftarrow> plugins example_workspace. '''' = pi_type pi \<or>
                          (normalizeString (t_type example_target) = pi_type pi \<and>
                           canDownload pi \<and> downloadFiles pi \<noteq> None)]"
    by (rule matching_example_plugins [symmetric])
  have h3: "?PLUGINS \<noteq> []"
    by simp
  have h4: "''Prod'' = template (getTargetName example_env (Some example_target))"
    by (simp add: name_of_example_target)
  note T = pullFilesFrom_tries_every_matching_plugin [OF h1 h2 h3 h4, of None example_state]
  have m: "mapFiles example_env example_workspace ''Prod'' ?files
             (if 1 < length ?files
              then appendLine (startMessage ''Prod'') (appendLine '''' (world example_state))
              else appendLine '''' (world example_state)) = (?mapped, ?w3)"
    by (simp add: mapFiles_with_ghost_example example_state_def del: mapFiles.simps)
  have d0: "downloadFiles offline_plugin = Some ?offline"
    by (simp add: offline_plugin_def)
  have c0: "?offline \<lparr>dl_files = filterNotNull ?mapped, dl_target = example_target\<rparr> ?w3 =
             (Inl (Thrown ''offline''), ?w3)"
    by simp
  have d3: "downloadFiles sftp_plugin = Some ?sftp"
    by (simp add: sftp_plugin_def)
  have c3: "?sftp \<lparr>dl_files = filterNotNull ?mapped, dl_target = example_target\<rparr> ?w3 =
             (Inr (), downloadEach [example_file ''a.txt''] ?w3)"
    by (simp add: filterNotNull_simps del: downloadEach.simps)
  have "whilePlugins example_env example_workspace ?files example_target ''Prod''
          (offline_plugin # []) example_state =
        whilePlugins example_env example_workspace ?files example_target ''Prod'' []
          \<lparr>calls = calls example_state @
             [Shifted (pi_index offline_plugin),
              DownloadFiles (pi_index offline_plugin) (map sf_file (filterNotNull ?mapped))],
           world = appendLine (failedMessage ''Prod'' (Thrown ''offline'')) ?w3\<rparr>"
    using T m d0 c0 by blast
  then have rejected:
    "whilePlugins example_env example_workspace ?files example_target ''Prod''
       [offline_plugin] example_state =
     \<lparr>calls = [Shifted 0, DownloadFiles 0 [''a.txt'']],
      world = appendLine (failedMessage ''Prod'' (Thrown ''offline'')) ?w3\<rparr>"
    by (simp add: filterNotNull_simps offline_plugin_def example_state_def sf_file_example_file)
  have "whilePlugins example_env example_workspace ?files example_target ''Prod''
          (sftp_plugin # []) example_state =
        whilePlugins example_env example_workspace ?files example_target ''Prod'' []
          \<lparr>calls = calls example_state @
             [Shifted (pi_index sftp_plugin),
              DownloadFiles (pi_index sftp_plugin) (map sf_file (filterNotNull ?mapped))],
           world = (if 1 < length ?files
                    then appendLine (finishedMessage ''Prod'')
                           (downloadEach [example_file ''a.txt''] ?w3)
                    else downloadEach [example_file ''a.txt''] ?w3)\<rparr>"
    using T m d3 c3 by blast
  then have resolved:
    "whilePlugins example_env example_workspace ?files example_target ''Prod''
       [sftp_plugin] example_state =
     \<lparr>calls = [Shifted 3, DownloadFiles 3 [''a.txt'']],
      world = appendLine (finishedMessage ''Prod'') (downloadEach [example_file ''a.txt''] ?w3)\<rparr>"
    by (simp add: filterNotNull_simps sftp_plugin_def example_state_def sf_file_example_file
        del: downloadEach.simps)
  have "pullFilesFrom example_env example_workspace ?files
          (Some example_target) None example_state =
          (Inr (), whilePlugins example_env example_workspace ?files example_target ''Prod''
                     ?PLUGINS example_state)
     \<and> calls (whilePlugins example_env example_workspace ?files example_target ''Prod''
          ?PLUGINS example_state) =
       [Shifted 0, DownloadFiles 0 [''a.txt''], Shifted 3, DownloadFiles 3 [''a.txt''],
        Shifted 4]"
    using T
    by (simp add: example_state_def example_workspace_def offline_plugin_def sftp_plugin_def
        inspector_plugin_def del: whilePlugins.simps)
  then show ?thesis
    using rejected resolved by simp
qed

text \<open>
  C1, as stated, fails: the plugin of the empty type that has no \<open>downloadFiles\<close>
  matches the target, and the pull takes it, invokes nothing and appends the line
  of the \<open>TypeError\<close>.
\<close>

theorem plugin_without_downloadFiles_counterexample:
  "[pi \<leftarrow> plugins inspector_workspace. '''' = pi_type pi \<or>
      (normalizeString (t_type example_target) = pi_type pi \<and> canDownload pi \<and>
       downloadFiles pi \<noteq> None)] = [inspector_plugin]
   \<and> downloadFiles inspector_plugin = None
   \<and> pullFilesFrom example_env inspector_workspace [''a.txt''] (Some example_target) None
       example_state =
     (Inr (),
      \<lparr>calls = [Shifted 4],
       world = appendLine (failedMessage ''Prod'' notAFunction) (appendLine '''' example_world)\<rparr>)"
proof -
  have p: "[pi \<leftarrow> plugins inspector_workspace. '''' = pi_type pi \<or>
              (normalizeString (t_type example_target) = pi_type pi \<and> canDownload pi \<and>
               downloadFiles pi \<noteq> None)] = [inspector_plugin]"
    by (simp add: inspector_workspace_def inspector_plugin_def)
  have none: "downloadFiles inspector_plugin = None"
    by (simp add: inspector_plugin_def)
  have m: "mapFiles example_env inspector_workspace ''Prod'' [''a.txt'']
             (if 1 < length [''a.txt'']
              then appendLine (startMessage ''Prod'')
                     (appendLine '''' (world (record_call (Shifted 4) example_state)))
              else appendLine '''' (world (record_call (Shifted 4) example_state))) =
           ([Some (example_file ''a.txt'')], appendLine '''' example_world)"
    by (simp add: toDownload_def inspector_workspace_def example_workspace_def example_file_def
        record_call_def example_state_def)
  have body: "pullFromPlugin example_env inspector_workspace [''a.txt''] example_target ''Prod''
                inspector_plugin (record_call (Shifted 4) example_state) =
              \<lparr>calls = [Shifted 4],
               world = appendLine (failedMessage ''Prod'' notAFunction)
                         (appendLine '''' example_world)\<rparr>"
    using pullFromPlugin_not_a_function [OF m none, of example_target]
    by (simp add: record_call_def example_state_def)
  have files: "[''a.txt''] \<noteq> []"
    by simp
  have index: "pi_index inspector_plugin = 4"
    by (simp add: inspector_plugin_def)
  have "pullFilesFrom example_env inspector_workspace [''a.txt''] (Some example_target) None
          example_state =
        (Inr (), whilePlugins example_env inspector_workspace [''a.txt''] example_target ''Prod''
                   [inspector_plugin] example_state)"
    unfolding pullFilesFrom_unfold [OF files] p name_of_example_target Let_def by simp
  then have "pullFilesFrom example_env inspector_workspace [''a.txt''] (Some example_target)
          None example_state =
        (Inr (),
         \<lparr>calls = [Shifted 4],
          world = appendLine (failedMessage ''Prod'' notAFunction)
                    (appendLine '''' example_world)\<rparr>)"
    by (simp add: index body)
  then show ?thesis
    using p none by simp
qed


lemma mapFiles_single_example:
  "mapFiles example_env example_workspace ''Prod'' [''a.txt''] w = ([Some (example_file ''a.txt'')], w)"
  by (simp add: toDownload_def example_workspace_def example_file_def)

lemma downloadEach_single_example:
  "downloadEach [example_file ''a.txt''] (appendLine '''' example_world) =
     \<lparr>outputChannel =
        [AppendLine '''', Append (pullingFileMessage ''a.txt'' ''Prod''), AppendLine ''[OK]''],
      shownWarnings = [],
      ext = \<lparr>finalizing = False, written = [(''a.txt'', ''data'')]\<rparr>\<rparr>"
  by (simp add: example_file_def sf_onBeforeDownload_def sf_onDownloadCompleted_def
      onDownloadCompleted_try_def example_env_def example_world_def appendLine_def
      append_out_def)

theorem onBeforeDownload_logs_in_every_batch_witness:
  "onBeforeDownload (example_file ''a.txt'') None example_world =
     (Inr (), example_world\<lparr>outputChannel := [Append (pullingFileMessage ''a.txt'' ''Prod'')]\<rparr>)
   \<and> world (pullFromPlugin example_env example_workspace [''a.txt''] example_target ''Prod''
        sftp_plugin example_state) =
       \<lparr>outputChannel =
          [AppendLine '''', Append (pullingFileMessage ''a.txt'' ''Prod''), AppendLine ''[OK]''],
        shownWarnings = [],
        ext = \<lparr>finalizing = False, written = [(''a.txt'', ''data'')]\<rparr>\<rparr>"
proof -
  let ?download = "\<lambda>(ctx :: example_ext download_context) w.
                     (Inr () :: error + unit, downloadEach (dl_files ctx) w)"
  let ?w4 = "downloadEach [example_file ''a.txt''] (appendLine '''' example_world)"
  have m: "mapFiles example_env example_workspace ''Prod'' [''a.txt'']
             (if 1 < length [''a.txt'']
              then appendLine (startMessage ''Prod'') (appendLine '''' (world example_state))
              else appendLine '''' (world example_state)) =
           ([Some (example_file ''a.txt'')], appendLine '''' example_world)"
    by (simp add: mapFiles_single_example example_state_def del: mapFiles.simps)
  have i: "example_file ''a.txt'' \<in> set (filterNotNull [Some (example_file ''a.txt'')])"
    by (simp add: filterNotNull_simps)
  have d: "downloadFiles sftp_plugin = Some ?download"
    by (simp add: sftp_plugin_def)
  have r: "?download \<lparr>dl_files = filterNotNull [Some (example_file ''a.txt'')],
                       dl_target = example_target\<rparr> (appendLine '''' example_world) =
             (Inr (), ?w4)"
    by (simp add: filterNotNull_simps)
  show ?thesis
    using onBeforeDownload_logs_in_every_batch [OF m i d r, of None example_world]
    unfolding downloadEach_single_example
    by (simp add: sf_file_example_file example_world_def)
qed

text \<open>
  C6, as stated, fails: in the pull of the single file \<open>a.txt\<close> through a plugin
  that calls both callbacks, the start message of the file is in the output channel.
\<close>

theorem single_file_start_message_counterexample:
  "outputChannel (world (snd (pullFileFrom example_env sftp_workspace ''a.txt''
     (Some example_target) example_state))) =
   [AppendLine '''', Append (pullingFileMessage ''a.txt'' ''Prod''), AppendLine ''[OK]'']"
proof -
  have p: "[pi \<leftarrow> plugins sftp_workspace. '''' = pi_type pi \<or>
              (normalizeString (t_type example_target) = pi_type pi \<and> canDownload pi \<and>
               downloadFiles pi \<noteq> None)] = [sftp_plugin]"
    by (simp add: sftp_workspace_def normalized_type_of_example_target sftp_plugin_def)
  have m: "mapFiles example_env sftp_workspace ''Prod'' [''a.txt''] w =
             ([Some (example_file ''a.txt'')], w)" for w
    by (simp add: toDownload_def sftp_workspace_def example_workspace_def example_file_def)
  have body: "pullFromPlugin example_env sftp_workspace [''a.txt''] example_target ''Prod''
                sftp_plugin (record_call (Shifted 3) example_state) =
              \<lparr>calls = [Shifted 3, DownloadFiles 3 [''a.txt'']],
               world = downloadEach [example_file ''a.txt''] (appendLine '''' example_world)\<rparr>"
    by (simp add: pullFromPlugin_def pullFromPlugin_try_def m filterNotNull_simps
        record_call_def example_state_def sftp_plugin_def sf_file_example_file
        del: mapFiles.simps downloadEach.simps)
  have files: "[''a.txt''] \<noteq> []"
    by simp
  have run: "pullFilesFrom example_env sftp_workspace [''a.txt''] (Some example_target) nr
               example_state =
             (Inr (), whilePlugins example_env sftp_workspace [''a.txt''] example_target ''Prod''
                        [sftp_plugin] example_state)" for nr
    unfolding pullFilesFrom_unfold [OF files] p name_of_example_target Let_def by simp
  have mine: "canBeHandledByMe sftp_workspace item" for item
    by (simp add: sftp_workspace_def example_workspace_def)
  have "pullFileFrom example_env sftp_workspace ''a.txt'' (Some example_target) example_state =
          (Inr (),
           \<lparr>calls = [Shifted 3, DownloadFiles 3 [''a.txt'']],
            world = downloadEach [example_file ''a.txt''] (appendLine '''' example_world)\<rparr>)"
    using body by (simp add: pullFileFrom_def run mine sftp_plugin_def)
  then show ?thesis
    unfolding downloadEach_single_example by simp
qed

lemma mapFiles_three_example:
  "mapFiles example_env sftp_workspace ''Prod'' [''a.txt'', ''ghost.txt'', ''b.txt''] w =
     ([Some (example_file ''a.txt''), None, Some (example_file ''b.txt'')],
      append_out (cannotDetectMessage ''ghost.txt'') w)"
  by (simp add: toDownload_def sftp_workspace_def example_workspace_def example_file_def)

lemma downloadEach_two_example:
  "downloadEach [example_file ''a.txt'', example_file ''b.txt'']
     \<lparr>outputChannel = out, shownWarnings = [], ext = \<lparr>finalizing = False, written = []\<rparr>\<rparr> =
     \<lparr>outputChannel =
        out @ [Append (pullingFileMessage ''a.txt'' ''Prod''), AppendLine ''[OK]'',
               Append (pullingFileMessage ''b.txt'' ''Prod''), AppendLine ''[OK]''],
      shownWarnings = [],
      ext = \<lparr>finalizing = False, written = [(''a.txt'', ''data''), (''b.txt'', ''data'')]\<rparr>\<rparr>"
  by (simp add: example_file_def sf_onBeforeDownload_def sf_onDownloadCompleted_def
      onDownloadCompleted_try_def example_env_def appendLine_def append_out_def)

theorem unresolvable_files_are_dropped_witness:
  "pullFilesFrom example_env sftp_workspace [''a.txt'', ''ghost.txt'', ''b.txt'']
     (Some example_target) None example_state =
     (Inr (),
      \<lparr>calls = [Shifted 3, DownloadFiles 3 [''a.txt'', ''b.txt'']],
       world =
         \<lparr>outputChannel =
            [AppendLine '''', AppendLine (startMessage ''Prod''),
             Append (cannotDetectMessage ''ghost.txt''),
             Append (pullingFileMessage ''a.txt'' ''Prod''), AppendLine ''[OK]'',
             Append (pullingFileMessage ''b.txt'' ''Prod''), AppendLine ''[OK]'',
             AppendLine (finishedMessage ''Prod'')],
          shownWarnings = [],
          ext = \<lparr>finalizing = False,
                 written = [(''a.txt'', ''data''), (''b.txt'', ''data'')]\<rparr>\<rparr>\<rparr>)"
proof -
  let ?files = "[''a.txt'', ''ghost.txt'', ''b.txt'']"
  let ?mapped = "[Some (example_file ''a.txt''), None, Some (example_file ''b.txt'')]"
  let ?out = "[AppendLine '''', AppendLine (startMessage ''Prod''),
               Append (cannotDetectMessage ''ghost.txt'')]"
  let ?w3 = "\<lparr>outputChannel = ?out, shownWarnings = [],
              ext = \<lparr>finalizing = False, written = []\<rparr>\<rparr>"
  let ?w4 = "downloadEach [example_file ''a.txt'', example_file ''b.txt''] ?w3"
  let ?download = "\<lambda>(ctx :: example_ext download_context) w.
                     (Inr () :: error + unit, downloadEach (dl_files ctx) w)"
  have m: "mapFiles example_env sftp_workspace ''Prod'' ?files
             (if 1 < length ?files
              then appendLine (startMessage ''Prod'') (appendLine '''' (world example_state))
              else appendLine '''' (world example_state)) = (?mapped, ?w3)"
    by (simp add: mapFiles_three_example example_state_def example_world_def appendLine_def
        append_out_def del: mapFiles.simps)
  have d: "downloadFiles sftp_plugin = Some ?download"
    by (simp add: sftp_plugin_def)
  have r: "?download \<lparr>dl_files = filterNotNull ?mapped, dl_target = example_target\<rparr> ?w3 =
             (Inr (), ?w4)"
    by (simp add: filterNotNull_simps del: downloadEach.simps)
  have p: "[pi \<leftarrow> plugins sftp_workspace. '''' = pi_type pi \<or>
              (normalizeString (t_type example_target) = pi_type pi \<and> canDownload pi \<and>
               downloadFiles pi \<noteq> None)] = sftp_plugin # []"
    by (simp add: sftp_workspace_def normalized_type_of_example_target sftp_plugin_def)
  have n: "''Prod'' = template (getTargetName example_env (Some example_target))"
    by (simp add: name_of_example_target)
  have f: "?files \<noteq> []"
    by simp
  have resolvable: "[f \<leftarrow> ?files. toNameAndPath sftp_workspace f \<noteq> None] = [''a.txt'', ''b.txt'']"
    by (simp add: sftp_workspace_def example_workspace_def)
  have index: "pi_index sftp_plugin = 3"
    by (simp add: sftp_plugin_def)
  have "pullFilesFrom example_env sftp_workspace ?files (Some example_target) None example_state =
          (Inr (),
           whilePlugins example_env sftp_workspace ?files example_target ''Prod'' []
             \<lparr>calls = calls example_state @
                [Shifted (pi_index sftp_plugin),
                 DownloadFiles (pi_index sftp_plugin)
                   [f \<leftarrow> ?files. toNameAndPath sftp_workspace f \<noteq> None]],
              world = (case (Inr () :: error + unit) of
                         Inl e \<Rightarrow> appendLine (failedMessage ''Prod'' e) ?w4
                       | Inr u \<Rightarrow>
                           (if 1 < length ?files
                            then appendLine (finishedMessage ''Prod'') ?w4 else ?w4))\<rparr>)"
    using unresolvable_files_are_dropped [OF m d r] f n p by blast
  then show ?thesis
    unfolding resolvable index downloadEach_two_example
    by (simp add: example_state_def appendLine_def)
qed

theorem onDownloadCompleted_never_rejects_witness:
  "onDownloadCompleted (example_file ''locked.txt'') None (Some (DownloadedFile (Inr ''data'')))
     example_world =
     (Inr (), appendLine (errorLine (Thrown ''EACCES'')) example_world)
   \<and> onDownloadCompleted (example_file ''a.txt'') None (Some (DownloadedFile (Inr ''data'')))
     example_world =
     (Inr (),
      appendLine ''[OK]''
        (example_world\<lparr>ext := \<lparr>finalizing = False, written = [(''a.txt'', ''data'')]\<rparr>\<rparr>))
   \<and> onDownloadCompleted (example_file ''a.txt'') (Some (Thrown ''timeout'')) None example_world =
     (Inr (), appendLine (errorLine (Thrown ''timeout'')) example_world)"
proof -
  have m: "mapFiles example_env example_workspace ''Prod'' [''a.txt'', ''locked.txt'']
             example_world =
           ([Some (example_file ''a.txt''), Some (example_file ''locked.txt'')], example_world)"
    by (simp add: toDownload_def example_workspace_def example_file_def)
  have ia: "example_file ''a.txt'' \<in>
              set (filterNotNull [Some (example_file ''a.txt''), Some (example_file ''locked.txt'')])"
    by (simp add: filterNotNull_simps)
  have il: "example_file ''locked.txt'' \<in>
              set (filterNotNull [Some (example_file ''a.txt''), Some (example_file ''locked.txt'')])"
    by (simp add: filterNotNull_simps)
  have wl: "writeFile example_env (sf_file (example_file ''locked.txt'')) ''data'' example_world =
              (Inl (Thrown ''EACCES''), example_world)"
    by (simp add: example_env_def example_file_def)
  have wa: "writeFile example_env (sf_file (example_file ''a.txt'')) ''data'' example_world =
              (Inr (),
               example_world\<lparr>ext := \<lparr>finalizing = False, written = [(''a.txt'', ''data'')]\<rparr>\<rparr>)"
    by (simp add: example_env_def example_file_def example_world_def)
  have a: "onDownloadCompleted (example_file ''locked.txt'') None
             (Some (DownloadedFile (Inr ''data''))) example_world =
           (Inr (), appendLine (errorLine (Thrown ''EACCES'')) example_world)"
    using onDownloadCompleted_never_rejects [OF m il, of None
        "Some (DownloadedFile (Inr ''data''))" example_world] wl
    by simp
  have b: "onDownloadCompleted (example_file ''a.txt'') None
             (Some (DownloadedFile (Inr ''data''))) example_world =
           (Inr (),
            appendLine ''[OK]''
              (example_world\<lparr>ext := \<lparr>finalizing = False, written = [(''a.txt'', ''data'')]\<rparr>\<rparr>))"
    using onDownloadCompleted_never_rejects [OF m ia, of None
        "Some (DownloadedFile (Inr ''data''))" example_world] wa
    by simp
  have c: "onDownloadCompleted (example_file ''a.txt'') (Some (Thrown ''timeout'')) None
             example_world =
           (Inr (), appendLine (errorLine (Thrown ''timeout'')) example_world)"
    using onDownloadCompleted_never_rejects [OF m ia, of "Some (Thrown ''timeout'')" None
        example_world]
    by simp
  show ?thesis
    using a b c by simp
qed

section \<open>Properties of the selection of a target\<close>

lemma state_updates:
  "s\<lparr>calls := c, world := w\<rparr> = \<lparr>calls = c, world = w\<rparr>"
  "s\<lparr>calls := c\<rparr> = \<lparr>calls = c, world = world s\<rparr>"
  "s\<lparr>world := w\<rparr> = \<lparr>calls = calls s, world = w\<rparr>"
  by (cases s; simp)+

lemma selectAndInvoke_single:
  "selectAndInvoke D [item] placeHolder s = action item s"
  by (simp add: selectAndInvoke_def)

lemma selectAndInvoke_cancelled:
  assumes "length items \<noteq> 1"
    and "showQuickPick D items placeHolder (world s) = (Inr None, w)"
  shows "selectAndInvoke D items placeHolder s =
           (Inr (), \<lparr>calls = calls s @ [QuickPick (map label items) placeHolder], world = w\<rparr>)"
  using assms by (simp add: selectAndInvoke_def record_call_def Let_def)

lemma selectAndInvoke_selected:
  assumes "length items \<noteq> 1"
    and "showQuickPick D items placeHolder (world s) = (Inr (Some item), w)"
  shows "selectAndInvoke D items placeHolder s =
           action item \<lparr>calls = calls s @ [QuickPick (map label items) placeHolder], world = w\<rparr>"
  using assms by (simp add: selectAndInvoke_def record_call_def Let_def state_updates)

lemma showTargetQuickPick_unfold:
  "showTargetQuickPick D targets placeHolder act s =
     (if [t. Some t \<leftarrow> asArray targets] = []
      then (Inr (), s\<lparr>world := showWarningMessage ''No TARGETS found!'' (world s)\<rparr>)
      else selectAndInvoke D (targetQuickPickItems D act [t. Some t \<leftarrow> asArray targets])
             (toStringSafe placeHolder) s)"
  by (simp add: showTargetQuickPick_def Let_def targetQuickPickItems_def)

lemma action_targetQuickPickItems:
  "i < length targets \<Longrightarrow>
     action (targetQuickPickItems D (Some a) targets ! i) s =
       a (targets ! i) \<lparr>calls = calls s @ [TargetAction (t_index (targets ! i))], world = world s\<rparr>"
  by (simp add: targetQuickPickItems_def record_call_def state_updates)

lemma single_target_item:
  "selectAndInvoke D (targetQuickPickItems D (Some a) [t]) placeHolder s =
     a t \<lparr>calls = calls s @ [TargetAction (t_index t)], world = world s\<rparr>"
  by (simp add: selectAndInvoke_def targetQuickPickItems_def record_call_def state_updates)

lemma single_pull_item:
  "selectAndInvoke D (pullQuickPickItems D ME FILES_TO_PULL [t]) placeHolder s =
     pullFilesFrom D ME FILES_TO_PULL (Some t) (Some 1)
       \<lparr>calls = calls s @ [TargetAction (t_index t)], world = world s\<rparr>"
  by (simp add: selectAndInvoke_def pullQuickPickItems_def record_call_def state_updates)

lemma pullPackage_unfold:
  assumes "canBeHandledByMe ME (PackageItem p)"
    and "findFilesByFilter ME p (world s) = (Inr FILES_TO_PULL, w0)"
    and "FILES_TO_PULL \<noteq> []"
  shows "pullPackage D ME (Some p) s =
     (if getTargets ME = []
      then (Inr (), s\<lparr>world := showWarningMessage ''No TARGETS found!'' w0\<rparr>)
      else selectAndInvoke D (pullQuickPickItems D ME FILES_TO_PULL (getTargets ME))
             ''Select the TARGET to pull from...'' \<lparr>calls = calls s, world = w0\<rparr>)"
proof -
  have files: "\<not> length FILES_TO_PULL < 1"
    using assms(3) by (cases FILES_TO_PULL) simp_all
  have items: "length (pullQuickPickItems D ME FILES_TO_PULL (getTargets ME)) < 1 \<longleftrightarrow>
                 getTargets ME = []"
    by (simp add: pullQuickPickItems_def)
  show ?thesis
    using assms(1) assms(2) files items
    by (simp add: pullPackage_def Let_def state_updates)
qed

lemma action_pullQuickPickItems:
  "i < length targets \<Longrightarrow>
     action (pullQuickPickItems D ME FILES_TO_PULL targets ! i) s =
       pullFilesFrom D ME FILES_TO_PULL (Some (targets ! i)) (Some (i + 1))
         \<lparr>calls = calls s @ [TargetAction (t_index (targets ! i))], world = world s\<rparr>"
  by (simp add: pullQuickPickItems_def record_call_def nth_enumerate_eq state_updates)

text \<open>
  C9. The targets that qualify are the entries of \<open>targets\<close> that are objects, for
  \<open>showTargetQuickPick\<close>, and the targets of the workspace, for \<open>pullPackage\<close>
  (once the package is accepted and has files). With none, the warning is shown and
  no action runs. With exactly one, its action runs at once, and the chooser is not
  asked. With two or more, the chooser is asked: without a selection the function
  resolves and no action runs; with the item at position \<open>i\<close> selected, the action
  of the target at position \<open>i\<close> runs.
\<close>

theorem target_selection_flow:
  assumes "qualifying = [t. Some t \<leftarrow> asArray targets]"
    and "ITEMS = targetQuickPickItems D (Some a) qualifying"
    and "canBeHandledByMe ME (PackageItem p)"
    and "findFilesByFilter ME p (world s) = (Inr FILES_TO_PULL, w0)"
    and "FILES_TO_PULL \<noteq> []"
    and "PULL_ITEMS = pullQuickPickItems D ME FILES_TO_PULL (getTargets ME)"
    and "PROMPT = ''Select the TARGET to pull from...''"
  shows "(qualifying = [] \<longrightarrow>
            showTargetQuickPick D targets placeHolder (Some a) s =
              (Inr (), s\<lparr>world := showWarningMessage ''No TARGETS found!'' (world s)\<rparr>))
       \<and> (\<forall>t. qualifying = [t] \<longrightarrow>
            showTargetQuickPick D targets placeHolder (Some a) s =
              a t \<lparr>calls = calls s @ [TargetAction (t_index t)], world = world s\<rparr>)
       \<and> (\<forall>w. 2 \<le> length qualifying \<and>
            showQuickPick D ITEMS (toStringSafe placeHolder) (world s) = (Inr None, w) \<longrightarrow>
            showTargetQuickPick D targets placeHolder (Some a) s =
              (Inr (),
               \<lparr>calls = calls s @ [QuickPick (map label ITEMS) (toStringSafe placeHolder)],
                world = w\<rparr>))
       \<and> (\<forall>i w. 2 \<le> length qualifying \<and> i < length qualifying \<and>
            showQuickPick D ITEMS (toStringSafe placeHolder) (world s) =
              (Inr (Some (ITEMS ! i)), w) \<longrightarrow>
            showTargetQuickPick D targets placeHolder (Some a) s =
              a (qualifying ! i)
                \<lparr>calls = calls s @ [QuickPick (map label ITEMS) (toStringSafe placeHolder),
                                     TargetAction (t_index (qualifying ! i))],
                 world = w\<rparr>)
       \<and> (getTargets ME = [] \<longrightarrow>
            pullPackage D ME (Some p) s =
              (Inr (), s\<lparr>world := showWarningMessage ''No TARGETS found!'' w0\<rparr>))
       \<and> (\<forall>t. getTargets ME = [t] \<longrightarrow>
            pullPackage D ME (Some p) s =
              pullFilesFrom D ME FILES_TO_PULL (Some t) (Some 1)
                \<lparr>calls = calls s @ [TargetAction (t_index t)], world = w0\<rparr>)
       \<and> (\<forall>w. 2 \<le> length (getTargets ME) \<and>
            showQuickPick D PULL_ITEMS PROMPT w0 = (Inr None, w) \<longrightarrow>
            pullPackage D ME (Some p) s =
              (Inr (), \<lparr>calls = calls s @ [QuickPick (map label PULL_ITEMS) PROMPT], world = w\<rparr>))
       \<and> (\<forall>i w. 2 \<le> length (getTargets ME) \<and> i < length (getTargets ME) \<and>
            showQuickPick D PULL_ITEMS PROMPT w0 = (Inr (Some (PULL_ITEMS ! i)), w) \<longrightarrow>
            pullPackage D ME (Some p) s =
              pullFilesFrom D ME FILES_TO_PULL (Some (getTargets ME ! i)) (Some (i + 1))
                \<lparr>calls = calls s @ [QuickPick (map label PULL_ITEMS) PROMPT,
                                     TargetAction (t_index (getTargets ME ! i))],
                 world = w\<rparr>)"
proof -
  have len: "length ITEMS = length qualifying"
    by (simp add: assms(2) targetQuickPickItems_def)
  have plen: "length PULL_ITEMS = length (getTargets ME)"
    by (simp add: assms(6) pullQuickPickItems_def)
  have U: "showTargetQuickPick D targets placeHolder (Some a) s =
     (if qualifying = []
      then (Inr (), s\<lparr>world := showWarningMessage ''No TARGETS found!'' (world s)\<rparr>)
      else selectAndInvoke D ITEMS (toStringSafe placeHolder) s)"
    unfolding assms(1) assms(2) by (rule showTargetQuickPick_unfold)
  have s0: "qualifying = [] \<Longrightarrow>
      showTargetQuickPick D targets placeHolder (Some a) s =
        (Inr (), s\<lparr>world := showWarningMessage ''No TARGETS found!'' (world s)\<rparr>)"
    by (simp add: U)
  have s1: "showTargetQuickPick D targets placeHolder (Some a) s =
        a t \<lparr>calls = calls s @ [TargetAction (t_index t)], world = world s\<rparr>"
    if "qualifying = [t]" for t
    using that by (simp add: U assms(2) single_target_item)
  have s2: "showTargetQuickPick D targets placeHolder (Some a) s =
        (Inr (),
         \<lparr>calls = calls s @ [QuickPick (map label ITEMS) (toStringSafe placeHolder)],
          world = w\<rparr>)"
    if "2 \<le> length qualifying"
      and "showQuickPick D ITEMS (toStringSafe placeHolder) (world s) = (Inr None, w)" for w
  proof -
    have ne: "length ITEMS \<noteq> 1" "qualifying \<noteq> []"
      using that(1) len by auto
    show ?thesis
      using selectAndInvoke_cancelled [OF ne(1) that(2)] ne(2) by (simp add: U)
  qed
  have s3: "showTargetQuickPick D targets placeHolder (Some a) s =
        a (qualifying ! i)
          \<lparr>calls = calls s @ [QuickPick (map label ITEMS) (toStringSafe placeHolder),
                               TargetAction (t_index (qualifying ! i))],
           world = w\<rparr>"
    if "2 \<le> length qualifying" and "i < length qualifying"
      and "showQuickPick D ITEMS (toStringSafe placeHolder) (world s) =
             (Inr (Some (ITEMS ! i)), w)" for i w
  proof -
    have ne: "length ITEMS \<noteq> 1" "qualifying \<noteq> []"
      using that(1) len by auto
    show ?thesis
      using selectAndInvoke_selected [OF ne(1) that(3)] ne(2)
        action_targetQuickPickItems [OF that(2), of D a]
      by (simp add: U assms(2))
  qed
  note unfold = pullPackage_unfold [OF assms(3) assms(4) assms(5), of D]
  have p0: "getTargets ME = [] \<Longrightarrow>
      pullPackage D ME (Some p) s =
        (Inr (), s\<lparr>world := showWarningMessage ''No TARGETS found!'' w0\<rparr>)"
    by (simp add: unfold)
  have p1: "pullPackage D ME (Some p) s =
        pullFilesFrom D ME FILES_TO_PULL (Some t) (Some 1)
          \<lparr>calls = calls s @ [TargetAction (t_index t)], world = w0\<rparr>"
    if "getTargets ME = [t]" for t
    using that by (simp add: unfold single_pull_item)
  have p2: "pullPackage D ME (Some p) s =
        (Inr (), \<lparr>calls = calls s @ [QuickPick (map label PULL_ITEMS) PROMPT], world = w\<rparr>)"
    if "2 \<le> length (getTargets ME)"
      and "showQuickPick D PULL_ITEMS PROMPT w0 = (Inr None, w)" for w
  proof -
    have ne: "length PULL_ITEMS \<noteq> 1" "getTargets ME \<noteq> []"
      using that(1) plen by auto
    have "showQuickPick D PULL_ITEMS PROMPT (world \<lparr>calls = calls s, world = w0\<rparr>) = (Inr None, w)"
      using that(2) by simp
    from selectAndInvoke_cancelled [OF ne(1) this] show ?thesis
      using ne(2) assms(6) assms(7) by (simp add: unfold)
  qed
  have p3: "pullPackage D ME (Some p) s =
        pullFilesFrom D ME FILES_TO_PULL (Some (getTargets ME ! i)) (Some (i + 1))
          \<lparr>calls = calls s @ [QuickPick (map label PULL_ITEMS) PROMPT,
                               TargetAction (t_index (getTargets ME ! i))],
           world = w\<rparr>"
    if "2 \<le> length (getTargets ME)" and "i < length (getTargets ME)"
      and "showQuickPick D PULL_ITEMS PROMPT w0 = (Inr (Some (PULL_ITEMS ! i)), w)" for i w
  proof -
    have ne: "length PULL_ITEMS \<noteq> 1" "getTargets ME \<noteq> []"
      using that(1) plen by auto
    have "showQuickPick D PULL_ITEMS PROMPT (world \<lparr>calls = calls s, world = w0\<rparr>) =
            (Inr (Some (PULL_ITEMS ! i)), w)"
      using that(3) by simp
    from selectAndInvoke_selected [OF ne(1) this] show ?thesis
      using ne(2) assms(6) assms(7) action_pullQuickPickItems [OF that(2), of D ME FILES_TO_PULL]
      by (simp add: unfold)
  qed
  show ?thesis
    using s0 s1 s2 s3 p0 p1 p2 p3 by blast
qed

lemma name_of_other_target:
  "template (getTargetName D (Some other_target)) =
     translate D 0 ''targets.defaultName'' 2"
proof -
  have "trim '''' = ''''"
    by code_simp
  then show ?thesis
    by (simp add: template_def getTargetName_def other_target_def toStringSafe_def
        numeral_2_eq_2)
qed

lemma index_of_other_target:
  "t_index other_target = 1"
  by (simp add: other_target_def)

lemma labels_of_two_targets:
  "map label (targetQuickPickItems example_env act [example_target, other_target]) =
     [''Prod'', ''Target #II'']"
  "map label (targetQuickPickItems choosing_env act [example_target, other_target]) =
     [''Prod'', ''Target #II'']"
  "map label (pullQuickPickItems example_env ME FILES_TO_PULL [example_target, other_target]) =
     [''Prod'', ''Target #II'']"
  by (simp_all add: targetQuickPickItems_def pullQuickPickItems_def name_of_other_target
      name_of_example_target example_env_def choosing_env_def numeral_2_eq_2)

theorem target_selection_flow_witness:
  "showTargetQuickPick example_env (Array [None]) None (Some example_action) example_state =
     (Inr (), example_state\<lparr>world := showWarningMessage ''No TARGETS found!'' example_world\<rparr>)
   \<and> showTargetQuickPick example_env (Array [Some example_target, None]) None
       (Some example_action) example_state =
     (Inr (), \<lparr>calls = [TargetAction 0], world = example_world\<rparr>)
   \<and> showTargetQuickPick example_env (Array [Some example_target, Some other_target])
       (Some ''Pick'') (Some example_action) example_state =
     (Inr (), \<lparr>calls = [QuickPick [''Prod'', ''Target #II''] ''Pick''], world = example_world\<rparr>)
   \<and> showTargetQuickPick choosing_env (Array [Some example_target, Some other_target])
       (Some ''Pick'') (Some example_action) example_state =
     (Inr (),
      \<lparr>calls = [QuickPick [''Prod'', ''Target #II''] ''Pick'', TargetAction 1],
       world = example_world\<rparr>)
   \<and> pullPackage example_env example_workspace (Some example_package) example_state =
     pullFilesFrom example_env example_workspace [''a.txt''] (Some example_target) (Some 1)
       \<lparr>calls = [TargetAction 0], world = example_world\<rparr>
   \<and> pullPackage example_env two_target_workspace (Some example_package) example_state =
     (Inr (),
      \<lparr>calls = [QuickPick [''Prod'', ''Target #II''] ''Select the TARGET to pull from...''],
       world = example_world\<rparr>)"
proof -
  have mine: "canBeHandledByMe example_workspace (PackageItem example_package)"
    "canBeHandledByMe two_target_workspace (PackageItem example_package)"
    by (simp_all add: example_workspace_def two_target_workspace_def)
  have found: "findFilesByFilter example_workspace example_package (world example_state) =
                 (Inr [''a.txt''], example_world)"
    "findFilesByFilter two_target_workspace example_package (world example_state) =
                 (Inr [''a.txt''], example_world)"
    by (simp_all add: example_workspace_def two_target_workspace_def example_state_def)
  have files: "[''a.txt''] \<noteq> []"
    by simp
  have targets1: "getTargets example_workspace = [example_target]"
    by (simp add: example_workspace_def)
  have targets2: "getTargets two_target_workspace = [example_target, other_target]"
    by (simp add: example_workspace_def two_target_workspace_def)
  have q0: "[] = [t. Some t \<leftarrow> asArray (Array [None :: target option])]"
    by (simp add: asArray_def)
  have q1: "[example_target] = [t. Some t \<leftarrow> asArray (Array [Some example_target, None])]"
    by (simp add: asArray_def)
  have q2: "[example_target, other_target] =
              [t. Some t \<leftarrow> asArray (Array [Some example_target, Some other_target])]"
    by (simp add: asArray_def)
  note flow0 = target_selection_flow [where D = example_env and a = example_action
      and placeHolder = None, OF q0 refl mine(1) found(1) files refl refl]
  note flow1 = target_selection_flow [where D = example_env and a = example_action
      and placeHolder = None, OF q1 refl mine(1) found(1) files refl refl]
  note flow2 = target_selection_flow [where D = example_env and a = example_action
      and placeHolder = "Some ''Pick''", OF q2 refl mine(2) found(2) files refl refl]
  note flow3 = target_selection_flow [where D = choosing_env and a = example_action
      and placeHolder = "Some ''Pick''", OF q2 refl mine(2) found(2) files refl refl]
  have a: "showTargetQuickPick example_env (Array [None]) None (Some example_action)
             example_state =
           (Inr (), example_state\<lparr>world := showWarningMessage ''No TARGETS found!''
                                            example_world\<rparr>)"
    using flow0 by (simp add: example_state_def)
  have b: "showTargetQuickPick example_env (Array [Some example_target, None]) None
             (Some example_action) example_state =
           (Inr (), \<lparr>calls = [TargetAction 0], world = example_world\<rparr>)"
    using flow1 by (simp add: example_action_def example_state_def example_target_def)
  have cancel: "showQuickPick example_env items placeHolder w = (Inr None, w)"
    for items placeHolder w
    by (simp add: example_env_def)
  have c: "showTargetQuickPick example_env (Array [Some example_target, Some other_target])
             (Some ''Pick'') (Some example_action) example_state =
           (Inr (), \<lparr>calls = [QuickPick [''Prod'', ''Target #II''] ''Pick''],
                     world = example_world\<rparr>)"
    using flow2 cancel
    by (simp add: labels_of_two_targets toStringSafe_def example_state_def)
  have choose: "showQuickPick choosing_env items placeHolder w = (Inr (Some (items ! 1)), w)"
    for items placeHolder w
    by (simp add: choosing_env_def)
  have "2 \<le> length [example_target, other_target] \<and> 1 < length [example_target, other_target] \<and>
        showQuickPick choosing_env
          (targetQuickPickItems choosing_env (Some example_action) [example_target, other_target])
          (toStringSafe (Some ''Pick'')) (world example_state) =
        (Inr (Some (targetQuickPickItems choosing_env (Some example_action)
                      [example_target, other_target] ! 1)), example_world)"
    by (simp add: choose example_state_def)
  with flow3 have "showTargetQuickPick choosing_env
             (Array [Some example_target, Some other_target]) (Some ''Pick'')
             (Some example_action) example_state =
           example_action ([example_target, other_target] ! 1)
             \<lparr>calls = calls example_state @
                [QuickPick (map label (targetQuickPickItems choosing_env (Some example_action)
                   [example_target, other_target])) (toStringSafe (Some ''Pick'')),
                 TargetAction (t_index ([example_target, other_target] ! 1))],
              world = example_world\<rparr>"
    by blast
  then have d: "showTargetQuickPick choosing_env
             (Array [Some example_target, Some other_target]) (Some ''Pick'')
             (Some example_action) example_state =
           (Inr (),
            \<lparr>calls = [QuickPick [''Prod'', ''Target #II''] ''Pick'', TargetAction 1],
             world = example_world\<rparr>)"
    by (simp add: labels_of_two_targets toStringSafe_def example_state_def example_action_def
        index_of_other_target)
  have e: "pullPackage example_env example_workspace (Some example_package) example_state =
           pullFilesFrom example_env example_workspace [''a.txt''] (Some example_target) (Some 1)
             \<lparr>calls = [TargetAction 0], world = example_world\<rparr>"
    using flow1 targets1 by (simp add: example_state_def example_target_def)
  have f: "pullPackage example_env two_target_workspace (Some example_package) example_state =
           (Inr (),
            \<lparr>calls = [QuickPick [''Prod'', ''Target #II''] ''Select the TARGET to pull from...''],
             world = example_world\<rparr>)"
    using flow2 targets2 cancel
    by (simp add: labels_of_two_targets example_state_def)
  show ?thesis
    using a b c d e f by simp
qed

end
